theory Spec2Isabelle
  imports Complex_Main "HOL-Library.AList" "HOL-Library.Word"
begin

section \<open>JavaScript values\<close>

text \<open>
  The converters receive their payloads and option bags as untyped run-time values: every
  entry point checks \<^verbatim>\<open>typeof x !== 'string'\<close> and hands the options to a schema validator.
  The model keeps them untyped. A string is a list of code units (those below 256, which is
  what \<open>char\<close> holds), so \<open>length\<close> is the \<^verbatim>\<open>.length\<close> of the source. Numbers are rationals: the
  only arithmetic on them is the comparison against the bounds of a schema. An object is an
  association list read through \<open>map_of\<close>, so the first binding of a key is the one the object
  holds.
\<close>

datatype jsvalue =
    JUndefined
  | JNull
  | JBool bool
  | JNum rat
  | JStr string
  | JArr "jsvalue list"
  | JObj "(string \<times> jsvalue) list"

type_synonym fields = "(string \<times> jsvalue) list"

type_synonym bytes = "8 word list"

text \<open>Truthiness, as tested by \<^verbatim>\<open>!x\<close>, \<^verbatim>\<open>x || d\<close> and \<^verbatim>\<open>if (x)\<close>.\<close>

fun truthy :: "jsvalue \<Rightarrow> bool" where
  "truthy JUndefined = False"
| "truthy JNull = False"
| "truthy (JBool b) = b"
| "truthy (JNum x) = (x \<noteq> 0)"
| "truthy (JStr s) = (s \<noteq> [])"
| "truthy (JArr xs) = True"
| "truthy (JObj fs) = True"

text \<open>\<^verbatim>\<open>key in obj\<close> and \<^verbatim>\<open>obj[key]\<close> on the fields of an object.\<close>

definition hasKey :: "fields \<Rightarrow> string \<Rightarrow> bool" where
  "hasKey fs k = (map_of fs k \<noteq> None)"

definition getField :: "fields \<Rightarrow> string \<Rightarrow> jsvalue" where
  "getField fs k = (case map_of fs k of None \<Rightarrow> JUndefined | Some v \<Rightarrow> v)"

text \<open>
  Property access \<^verbatim>\<open>o.k\<close>. The source reads properties only of values that are objects
  (\<^verbatim>\<open>validatedOptions.data || {}\<close>) or through \<^verbatim>\<open>o?.k\<close>, where a missing object gives
  \<^verbatim>\<open>undefined\<close>.
\<close>

fun getProp :: "jsvalue \<Rightarrow> string \<Rightarrow> jsvalue" where
  "getProp (JObj fs) k = getField fs k"
| "getProp v k = JUndefined"

text \<open>
  Object spread \<^verbatim>\<open>{ ...defaults, ...data }\<close>: the own keys of \<open>data\<close> win, also when their
  value is \<^verbatim>\<open>undefined\<close>; spreading \<^verbatim>\<open>undefined\<close> adds nothing.
\<close>

fun spread :: "fields \<Rightarrow> jsvalue \<Rightarrow> fields" where
  "spread defaults (JObj fs) = fs @ defaults"
| "spread defaults v = defaults"

text \<open>\<^verbatim>\<open>validatedOptions.data || {}\<close>\<close>

definition dataOrEmpty :: "jsvalue \<Rightarrow> jsvalue" where
  "dataOrEmpty d = (if truthy d then d else JObj [])"

text \<open>The text of a validated string option (the schema admits strings only there).\<close>

fun asString :: "jsvalue \<Rightarrow> string" where
  "asString (JStr s) = s"
| "asString v = []"

text \<open>\<^verbatim>\<open>x || d\<close> on an optional string.\<close>

definition orElse :: "jsvalue \<Rightarrow> string \<Rightarrow> string" where
  "orElse v d = (if truthy v then asString v else d)"

text \<open>A thrown value: an \<^verbatim>\<open>Error\<close> with its message, or anything else.\<close>

datatype thrown = ErrorObj string | OtherThrown

text \<open>\<^verbatim>\<open>error instanceof Error ? error.message : 'Unknown error occurred'\<close>\<close>

fun errorMessage :: "thrown \<Rightarrow> string" where
  "errorMessage (ErrorObj m) = m"
| "errorMessage OtherThrown = ''Unknown error occurred''"

text \<open>
  Decimal rendering of an index or a status code inside a template literal. \<open>digit\<close> is only
  applied to numbers below ten.
\<close>

definition digit :: "nat \<Rightarrow> char" where
  "digit d = ''0123456789'' ! d"

fun showNat :: "nat \<Rightarrow> string" where
  "showNat n = (if n < 10 then [digit n] else showNat (n div 10) @ [digit (n mod 10)])"

declare showNat.simps [simp del]

text \<open>\<^verbatim>\<open>Array.prototype.join\<close> on a list of strings.\<close>

fun join :: "string \<Rightarrow> string list \<Rightarrow> string" where
  "join sep [] = []"
| "join sep [x] = x"
| "join sep (x # y # ys) = x @ sep @ join sep (y # ys)"

text \<open>
  \<^verbatim>\<open>String.prototype.indexOf\<close>, \<^verbatim>\<open>includes\<close> and \<^verbatim>\<open>replace\<close> with a string pattern: the first
  occurrence is replaced, and the replacement text is a template in which \<^verbatim>\<open>$$\<close>, \<^verbatim>\<open>$&\<close>,
  the dollar-backtick and the dollar-quote patterns stand for a dollar sign, the match, the text
  before it and the text after it. A string pattern has no capture groups, so every other use
  of the dollar sign is literal.
\<close>

fun indexOf :: "string \<Rightarrow> string \<Rightarrow> nat option" where
  "indexOf [] pat = (if pat = [] then Some 0 else None)"
| "indexOf (c # cs) pat =
     (if take (length pat) (c # cs) = pat then Some 0
      else map_option Suc (indexOf cs pat))"

definition includesStr :: "string \<Rightarrow> string \<Rightarrow> bool" where
  "includesStr s pat = (indexOf s pat \<noteq> None)"

fun getSubstitution :: "string \<Rightarrow> string \<Rightarrow> string \<Rightarrow> string \<Rightarrow> string" where
  "getSubstitution matched front rest [] = []"
| "getSubstitution matched front rest [c] = [c]"
| "getSubstitution matched front rest (c # d # cs) =
     (if c = CHR ''$'' \<and> d = CHR ''$'' then CHR ''$'' # getSubstitution matched front rest cs
      else if c = CHR ''$'' \<and> d = CHR ''&'' then matched @ getSubstitution matched front rest cs
      else if c = CHR ''$'' \<and> d = CHR 0x60 then front @ getSubstitution matched front rest cs
      else if c = CHR ''$'' \<and> d = CHR 0x27 then rest @ getSubstitution matched front rest cs
      else c # getSubstitution matched front rest (d # cs))"

definition replace :: "string \<Rightarrow> string \<Rightarrow> string \<Rightarrow> string" where
  "replace s pat repl =
     (case indexOf s pat of
        None \<Rightarrow> s
      | Some i \<Rightarrow>
          take i s
          @ getSubstitution pat (take i s) (drop (i + length pat) s) repl
          @ drop (i + length pat) s)"

section \<open>The schema validator\<close>

text \<open>
  The option schemas are built from the zod constructors \<^verbatim>\<open>z.string()\<close>, \<^verbatim>\<open>z.boolean()\<close>,
  \<^verbatim>\<open>z.number().min(a).max(b)\<close>, \<^verbatim>\<open>z.enum([...])\<close>, \<^verbatim>\<open>z.array(s)\<close>, \<^verbatim>\<open>z.record(s)\<close>,
  \<^verbatim>\<open>z.object({...})\<close> and \<^verbatim>\<open>.optional()\<close>. The schemas below are the ones of the source; the
  interpreter \<open>zparse\<close> follows the library's documented behaviour for these constructors:
  the bounds of a number are inclusive, an optional schema accepts \<^verbatim>\<open>undefined\<close>, and an
  object schema reads only the keys of its shape and drops every other key of the input
  (the default policy of \<^verbatim>\<open>z.object\<close>, which no schema of the source overrides with
  \<^verbatim>\<open>.strict()\<close> or \<^verbatim>\<open>.passthrough()\<close>). A key of the shape is written to the output when
  its parsed value is defined or the input has the key. Every failing field contributes an
  issue carrying its path.
\<close>

datatype path_elem = Key string | Index nat

datatype issue_code = InvalidType | InvalidEnumValue | TooSmall | TooBig

datatype zod_issue = Issue issue_code "path_elem list"

datatype zschema =
    ZString
  | ZBoolean
  | ZNumber "rat option" "rat option"
  | ZEnum "string list"
  | ZArray zschema
  | ZRecord zschema
  | ZObject "(string \<times> zschema) list"
  | ZOptional zschema

fun mergeArray :: "(zod_issue list + jsvalue) list \<Rightarrow> zod_issue list + jsvalue list" where
  "mergeArray [] = Inr []"
| "mergeArray (r # rs) =
     (case (r, mergeArray rs) of
        (Inr v, Inr vs) \<Rightarrow> Inr (v # vs)
      | (Inr v, Inl js) \<Rightarrow> Inl js
      | (Inl is, Inr vs) \<Rightarrow> Inl is
      | (Inl is, Inl js) \<Rightarrow> Inl (is @ js))"

fun mergeObject :: "(string \<times> bool \<times> (zod_issue list + jsvalue)) list
    \<Rightarrow> zod_issue list + fields" where
  "mergeObject [] = Inr []"
| "mergeObject ((k, alwaysSet, r) # rs) =
     (case (r, mergeObject rs) of
        (Inr v, Inr fs) \<Rightarrow> Inr (if v \<noteq> JUndefined \<or> alwaysSet then (k, v) # fs else fs)
      | (Inr v, Inl js) \<Rightarrow> Inl js
      | (Inl is, Inr fs) \<Rightarrow> Inl is
      | (Inl is, Inl js) \<Rightarrow> Inl (is @ js))"

fun zparse :: "zschema \<Rightarrow> path_elem list \<Rightarrow> jsvalue \<Rightarrow> zod_issue list + jsvalue" where
  "zparse ZString p v = (case v of JStr s \<Rightarrow> Inr v | _ \<Rightarrow> Inl [Issue InvalidType p])"
| "zparse ZBoolean p v = (case v of JBool b \<Rightarrow> Inr v | _ \<Rightarrow> Inl [Issue InvalidType p])"
| "zparse (ZNumber lo hi) p v =
     (case v of
        JNum x \<Rightarrow>
          (let small = (case lo of Some l \<Rightarrow> x < l | None \<Rightarrow> False);
               big = (case hi of Some h \<Rightarrow> h < x | None \<Rightarrow> False);
               issues = (if small then [Issue TooSmall p] else [])
                        @ (if big then [Issue TooBig p] else [])
           in if issues = [] then Inr v else Inl issues)
      | _ \<Rightarrow> Inl [Issue InvalidType p])"
| "zparse (ZEnum vals) p v =
     (case v of
        JStr s \<Rightarrow> if s \<in> set vals then Inr v else Inl [Issue InvalidEnumValue p]
      | _ \<Rightarrow> Inl [Issue InvalidType p])"
| "zparse (ZOptional s) p v = (if v = JUndefined then Inr JUndefined else zparse s p v)"
| "zparse (ZArray s) p v =
     (case v of
        JArr xs \<Rightarrow>
          map_sum id JArr
            (mergeArray (map (\<lambda>ix. zparse s (p @ [Index (fst ix)]) (snd ix)) (enumerate 0 xs)))
      | _ \<Rightarrow> Inl [Issue InvalidType p])"
| "zparse (ZRecord s) p v =
     (case v of
        JObj fs \<Rightarrow>
          map_sum id JObj
            (mergeObject (map (\<lambda>kx. (fst kx, True, zparse s (p @ [Key (fst kx)]) (snd kx)))
                              (AList.clearjunk fs)))
      | _ \<Rightarrow> Inl [Issue InvalidType p])"
| "zparse (ZObject shape) p v =
     (case v of
        JObj fs \<Rightarrow>
          map_sum id JObj
            (mergeObject (map (\<lambda>ks. (fst ks, hasKey fs (fst ks),
                                       zparse (snd ks) (p @ [Key (fst ks)]) (getField fs (fst ks))))
                              shape))
      | _ \<Rightarrow> Inl [Issue InvalidType p])"

text \<open>\<^verbatim>\<open>schema.safeParse(value)\<close>: \<open>Inl\<close> the issues of the error, \<open>Inr\<close> the normalized data.\<close>

definition safeParse :: "zschema \<Rightarrow> jsvalue \<Rightarrow> zod_issue list + jsvalue" where
  "safeParse schema v = zparse schema [] v"

subsection \<open>The schemas of the source\<close>

definition sanitizerOptionsSchema :: zschema where
  "sanitizerOptionsSchema = ZOptional (ZObject
     [(''allowedTags'', ZOptional (ZArray ZString)),
      (''allowedAttributes'', ZOptional (ZRecord (ZArray ZString))),
      (''allowedSchemes'', ZOptional (ZArray ZString)),
      (''allowedClasses'', ZOptional (ZRecord (ZArray ZString)))])"

definition markdownFields :: "(string \<times> zschema) list" where
  "markdownFields =
     [(''sanitize'', ZOptional ZBoolean),
      (''breaks'', ZOptional ZBoolean),
      (''gfm'', ZOptional ZBoolean),
      (''mangle'', ZOptional ZBoolean),
      (''pedantic'', ZOptional ZBoolean),
      (''sanitizerOptions'', sanitizerOptionsSchema)]"

definition MarkdownToHtmlOptionsSchema :: zschema where
  "MarkdownToHtmlOptionsSchema = ZOptional (ZObject markdownFields)"

definition pdfFields :: "(string \<times> zschema) list" where
  "pdfFields =
     [(''format'', ZOptional (ZEnum [''A4'', ''A3'', ''A2'', ''A1'', ''A0'',
                                     ''Legal'', ''Letter'', ''Tabloid''])),
      (''margin'', ZOptional (ZObject
         [(''top'', ZOptional ZString),
          (''right'', ZOptional ZString),
          (''bottom'', ZOptional ZString),
          (''left'', ZOptional ZString)])),
      (''printBackground'', ZOptional ZBoolean),
      (''landscape'', ZOptional ZBoolean),
      (''scale'', ZOptional (ZNumber (Some (1 / 10)) (Some 2))),
      (''displayHeaderFooter'', ZOptional ZBoolean),
      (''headerTemplate'', ZOptional ZString),
      (''footerTemplate'', ZOptional ZString),
      (''preferCSSPageSize'', ZOptional ZBoolean),
      (''width'', ZOptional ZString),
      (''height'', ZOptional ZString)]"

definition HtmlToPdfOptionsSchema :: zschema where
  "HtmlToPdfOptionsSchema = ZOptional (ZObject pdfFields)"

definition docxFields :: "(string \<times> zschema) list" where
  "docxFields =
     [(''orientation'', ZOptional (ZEnum [''portrait'', ''landscape''])),
      (''margins'', ZOptional (ZObject
         [(''top'', ZOptional (ZNumber None None)),
          (''right'', ZOptional (ZNumber None None)),
          (''bottom'', ZOptional (ZNumber None None)),
          (''left'', ZOptional (ZNumber None None)),
          (''header'', ZOptional (ZNumber None None)),
          (''footer'', ZOptional (ZNumber None None)),
          (''gutter'', ZOptional (ZNumber None None))])),
      (''title'', ZOptional ZString),
      (''subject'', ZOptional ZString),
      (''creator'', ZOptional ZString),
      (''keywords'', ZOptional ZString),
      (''description'', ZOptional ZString)]"

definition HtmlToDocxOptionsSchema :: zschema where
  "HtmlToDocxOptionsSchema = ZOptional (ZObject docxFields)"

definition MarkdownToDocxOptionsSchema :: zschema where
  "MarkdownToDocxOptionsSchema = ZOptional (ZObject
     (markdownFields @ docxFields @
      [(''fullDocument'', ZOptional ZBoolean),
       (''cssStyles'', ZOptional ZString)]))"

definition MarkdownToPdfOptionsSchema :: zschema where
  "MarkdownToPdfOptionsSchema = ZOptional (ZObject
     [(''markdownOptions'', ZOptional (ZObject markdownFields)),
      (''pdfOptions'', ZOptional (ZObject pdfFields)),
      (''documentOptions'', ZOptional (ZObject
         [(''title'', ZOptional ZString),
          (''cssStyles'', ZOptional ZString),
          (''fullDocument'', ZOptional ZBoolean)]))])"


section \<open>Results, the environment and the observable state\<close>

text \<open>
  Every module declares its own \<^verbatim>\<open>ConversionResult\<close> interface; they differ only in the type of
  \<open>data\<close> and in the metadata. All results are built as one of two object literals:
  \<^verbatim>\<open>{ success: false, error }\<close> and \<^verbatim>\<open>{ success: true, data, metadata }\<close>.
\<close>

record ('d, 'm) ConversionResult =
  success :: bool
  data :: "'d option"
  error :: "string option"
  metadata :: "'m option"

definition failure :: "string \<Rightarrow> ('d, 'm) ConversionResult" where
  "failure msg = \<lparr>success = False, data = None, error = Some msg, metadata = None\<rparr>"

definition succeeded :: "'d \<Rightarrow> 'm \<Rightarrow> ('d, 'm) ConversionResult" where
  "succeeded d m = \<lparr>success = True, data = Some d, error = None, metadata = Some m\<rparr>"

text \<open>
  The metadata of the five modules. The field \<^verbatim>\<open>size\<close> of the source is \<open>size'\<close> for the two
  binary stages and \<open>docxSize\<close> in the Markdown to DOCX pipeline, whose metadata extends the one of
  the Markdown stage; \<^verbatim>\<open>htmlLength\<close> and \<^verbatim>\<open>sanitized\<close> of the Markdown to PDF pipeline carry the
  prefix \<open>pdf_\<close>.
\<close>

record html_meta =
  originalLength :: nat
  htmlLength :: nat
  sanitized :: bool

record size_meta =
  size' :: nat

record md_docx_meta = html_meta +
  docxSize :: nat

record md_pdf_meta =
  markdownLength :: nat
  pdf_htmlLength :: nat
  pdfSize :: nat
  pdf_sanitized :: bool

text \<open>The options of the Markdown parser that \<^verbatim>\<open>marked.setOptions\<close> writes (a global of the library).\<close>

record marked_opts =
  breaks :: bool
  gfm :: bool
  pedantic :: bool

text \<open>
  The external collaborators are opaque: the Markdown parser, the sanitizer, the browser
  engine, the DOCX emitter, the file system, the network and the rendering of a validation
  error as text. Each is a field of the environment, giving the outcome of the call: a value
  or the thrown exception.
\<close>

datatype page_source = Content string | Url string

datatype docx_result = ResBuffer bytes | ResBlob "thrown + bytes" | ResOther

record response =
  ok :: bool
  status :: nat
  statusText :: string
  body_text :: "thrown + string"

record env =
  zod_message :: "zod_issue list \<Rightarrow> string"
  marked_parse :: "marked_opts \<Rightarrow> string \<Rightarrow> thrown + string"
  sanitizeHtml :: "string \<Rightarrow> jsvalue \<Rightarrow> thrown + string"
  launch :: "thrown option"
  newPage :: "thrown option"
  setContent :: "string \<Rightarrow> thrown option"
  goto :: "string \<Rightarrow> thrown option"
  pdf :: "page_source \<Rightarrow> jsvalue \<Rightarrow> thrown + bytes"
  close :: "thrown option"
  asBlob :: "string \<Rightarrow> jsvalue \<Rightarrow> thrown + docx_result"
  readFile :: "jsvalue \<Rightarrow> thrown + string"
  fetch :: "string \<Rightarrow> thrown + response"

text \<open>
  What a call leaves behind: the parser's global options, the number of browser instances
  that are open, and the calls made to the engine, the emitter and the console, in order.
\<close>

datatype ext_call =
    Launch
  | NewPage
  | SetContent string
  | Goto string
  | PagePdf jsvalue
  | Close
  | ConsoleError string
  | AsBlob string jsvalue

record world =
  markedOptions :: marked_opts
  openBrowsers :: nat
  calls :: "ext_call list"

definition logCall :: "ext_call \<Rightarrow> world \<Rightarrow> world" where
  "logCall c w = w\<lparr>calls := calls w @ [c]\<rparr>"

text \<open>\<^verbatim>\<open>!x || typeof x !== 'string'\<close> fails exactly on a non-empty string.\<close>

definition nonEmptyString :: "jsvalue \<Rightarrow> string option" where
  "nonEmptyString v = (case v of JStr s \<Rightarrow> if s = [] then None else Some s | _ \<Rightarrow> None)"

section \<open>Markdown to HTML\<close>

definition DEFAULT_SANITIZER_OPTIONS :: fields where
  "DEFAULT_SANITIZER_OPTIONS =
     [(''allowedTags'', JArr (map JStr
         [''h1'', ''h2'', ''h3'', ''h4'', ''h5'', ''h6'',
          ''p'', ''br'', ''hr'',
          ''strong'', ''em'', ''u'', ''s'', ''b'', ''i'',
          ''ul'', ''ol'', ''li'',
          ''blockquote'', ''pre'', ''code'',
          ''a'', ''img'',
          ''table'', ''thead'', ''tbody'', ''tr'', ''th'', ''td'',
          ''div'', ''span''])),
      (''allowedAttributes'', JObj
         [(''a'', JArr (map JStr [''href'', ''title'', ''target''])),
          (''img'', JArr (map JStr [''src'', ''alt'', ''title'', ''width'', ''height''])),
          (''blockquote'', JArr (map JStr [''cite''])),
          (''th'', JArr (map JStr [''align'', ''colspan'', ''rowspan''])),
          (''td'', JArr (map JStr [''align'', ''colspan'', ''rowspan''])),
          (''div'', JArr (map JStr [''class'', ''id''])),
          (''span'', JArr (map JStr [''class'', ''id''])),
          (''pre'', JArr (map JStr [''class''])),
          (''code'', JArr (map JStr [''class'']))]),
      (''allowedSchemes'', JArr (map JStr [''http'', ''https'', ''mailto''])),
      (''allowedClasses'', JObj
         [(''pre'', JArr (map JStr [''language-*''])),
          (''code'', JArr (map JStr [''language-*'']))])]"

definition invalidMarkdown :: string where
  "invalidMarkdown = ''Invalid markdown input: Markdown must be a non-empty string''"

text \<open>
  \<^verbatim>\<open>marked.setOptions({ breaks: opts.breaks || false, gfm: opts.gfm !== false,
  pedantic: opts.pedantic || false })\<close>
\<close>

definition markedSetOptions :: "jsvalue \<Rightarrow> world \<Rightarrow> world" where
  "markedSetOptions opts w =
     w\<lparr>markedOptions :=
         \<lparr>breaks = truthy (getProp opts ''breaks''),
          gfm = (getProp opts ''gfm'' \<noteq> JBool False),
          pedantic = truthy (getProp opts ''pedantic'')\<rparr>\<rparr>"

definition convertMarkdownToHtml ::
  "env \<Rightarrow> world \<Rightarrow> jsvalue \<Rightarrow> jsvalue \<Rightarrow> (string, html_meta) ConversionResult \<times> world" where
  "convertMarkdownToHtml E w markdown options =
     (case nonEmptyString markdown of
        None \<Rightarrow> (failure invalidMarkdown, w)
      | Some md \<Rightarrow>
          (case safeParse MarkdownToHtmlOptionsSchema options of
             Inl issues \<Rightarrow> (failure (''Invalid options: '' @ zod_message E issues), w)
           | Inr d \<Rightarrow>
               (let opts = dataOrEmpty d;
                    w1 = markedSetOptions opts w
                in case marked_parse E (markedOptions w1) md of
                     Inl ex \<Rightarrow> (failure (''Markdown conversion failed: '' @ errorMessage ex), w1)
                   | Inr parsed \<Rightarrow>
                       if truthy (getProp opts ''sanitize'') then
                         (case sanitizeHtml E parsed
                                 (JObj (spread DEFAULT_SANITIZER_OPTIONS
                                          (getProp opts ''sanitizerOptions''))) of
                            Inl ex \<Rightarrow>
                              (failure (''Markdown conversion failed: '' @ errorMessage ex), w1)
                          | Inr html \<Rightarrow>
                              (succeeded html
                                 \<lparr>originalLength = length md, htmlLength = length html,
                                  sanitized = True\<rparr>, w1))
                       else
                         (succeeded parsed
                            \<lparr>originalLength = length md, htmlLength = length parsed,
                             sanitized = False\<rparr>, w1))))"

definition convertMarkdownFileToHtml ::
  "env \<Rightarrow> world \<Rightarrow> jsvalue \<Rightarrow> jsvalue \<Rightarrow> (string, html_meta) ConversionResult \<times> world" where
  "convertMarkdownFileToHtml E w filePath options =
     (case readFile E filePath of
        Inl ex \<Rightarrow> (failure (''Failed to read markdown file: '' @ errorMessage ex), w)
      | Inr markdown \<Rightarrow> convertMarkdownToHtml E w (JStr markdown) options)"

definition defaultStyles :: string where
  \<open>defaultStyles =
     ''\<newline>'' @
     ''      body {\<newline>'' @
     ''        font-family: -apple-system, BlinkMacSystemFont, '' @ [CHR 0x27] @ ''Segoe UI'' @ [CHR 0x27] @ '', '' @ [CHR 0x27] @ ''Roboto'' @ [CHR 0x27] @ '', sans-serif;\<newline>'' @
     ''        line-height: 1.6;\<newline>'' @
     ''        color: #333;\<newline>'' @
     ''        max-width: 800px;\<newline>'' @
     ''        margin: 0 auto;\<newline>'' @
     ''        padding: 20px;\<newline>'' @
     ''      }\<newline>'' @
     ''      \<newline>'' @
     ''      h1, h2, h3, h4, h5, h6 {\<newline>'' @
     ''        margin-top: 1.5em;\<newline>'' @
     ''        margin-bottom: 0.5em;\<newline>'' @
     ''      }\<newline>'' @
     ''      \<newline>'' @
     ''      pre {\<newline>'' @
     ''        background: #f5f5f5;\<newline>'' @
     ''        padding: 15px;\<newline>'' @
     ''        border-radius: 5px;\<newline>'' @
     ''        overflow-x: auto;\<newline>'' @
     ''      }\<newline>'' @
     ''      \<newline>'' @
     ''      code {\<newline>'' @
     ''        background: #f5f5f5;\<newline>'' @
     ''        padding: 2px 4px;\<newline>'' @
     ''        border-radius: 3px;\<newline>'' @
     ''        font-family: '' @ [CHR 0x27] @ ''Monaco'' @ [CHR 0x27] @ '', '' @ [CHR 0x27] @ ''Menlo'' @ [CHR 0x27] @ '', '' @ [CHR 0x27] @ ''Ubuntu Mono'' @ [CHR 0x27] @ '', monospace;\<newline>'' @
     ''      }\<newline>'' @
     ''      \<newline>'' @
     ''      blockquote {\<newline>'' @
     ''        border-left: 4px solid #ddd;\<newline>'' @
     ''        margin: 0;\<newline>'' @
     ''        padding-left: 20px;\<newline>'' @
     ''        color: #666;\<newline>'' @
     ''      }\<newline>'' @
     ''      \<newline>'' @
     ''      table {\<newline>'' @
     ''        border-collapse: collapse;\<newline>'' @
     ''        width: 100%;\<newline>'' @
     ''        margin: 1em 0;\<newline>'' @
     ''      }\<newline>'' @
     ''      \<newline>'' @
     ''      th, td {\<newline>'' @
     ''        border: 1px solid #ddd;\<newline>'' @
     ''        padding: 8px 12px;\<newline>'' @
     ''        text-align: left;\<newline>'' @
     ''      }\<newline>'' @
     ''      \<newline>'' @
     ''      th {\<newline>'' @
     ''        background-color: #f5f5f5;\<newline>'' @
     ''        font-weight: bold;\<newline>'' @
     ''      }\<newline>'' @
     ''      \<newline>'' @
     ''      img {\<newline>'' @
     ''        max-width: 100%;\<newline>'' @
     ''        height: auto;\<newline>'' @
     ''      }\<newline>'' @
     ''      \<newline>'' @
     ''      a {\<newline>'' @
     ''        color: #0066cc;\<newline>'' @
     ''        text-decoration: none;\<newline>'' @
     ''      }\<newline>'' @
     ''      \<newline>'' @
     ''      a:hover {\<newline>'' @
     ''        text-decoration: underline;\<newline>'' @
     ''      }\<newline>'' @
     ''    ''\<close>

text \<open>
  \<^verbatim>\<open>createFullHtmlDocument(htmlContent, title = 'Document', cssStyles?)\<close>. The callers modelled
  here always pass a title.
\<close>

definition createFullHtmlDocument :: "string \<Rightarrow> string \<Rightarrow> jsvalue \<Rightarrow> string" where
  \<open>createFullHtmlDocument htmlContent title cssStyles =
     ''<!DOCTYPE html>\<newline>'' @
     ''<html lang="en">\<newline>'' @
     ''<head>\<newline>'' @
     ''  <meta charset="UTF-8">\<newline>'' @
     ''  <meta name="viewport" content="width=device-width, initial-scale=1.0">\<newline>'' @
     ''  <title>'' @ title @ ''</title>\<newline>'' @
     ''  <style>\<newline>'' @
     ''    '' @ defaultStyles @ ''\<newline>'' @
     ''    '' @ orElse cssStyles [] @ ''\<newline>'' @
     ''  </style>\<newline>'' @
     ''</head>\<newline>'' @
     ''<body>\<newline>'' @
     ''  '' @ htmlContent @ ''\<newline>'' @
     ''</body>\<newline>'' @
     ''</html>''\<close>

section \<open>HTML to PDF\<close>

definition PDF_DEFAULT_OPTIONS :: fields where
  "PDF_DEFAULT_OPTIONS =
     [(''format'', JStr ''A4''),
      (''margin'', JObj [(''top'', JStr ''1cm''), (''right'', JStr ''1cm''),
                         (''bottom'', JStr ''1cm''), (''left'', JStr ''1cm'')]),
      (''printBackground'', JBool True),
      (''displayHeaderFooter'', JBool False),
      (''preferCSSPageSize'', JBool False)]"

text \<open>
  The calls on the engine. A launch that succeeds opens an instance; \<^verbatim>\<open>browser.close()\<close> that
  returns closes it, and one that throws leaves it as it was.
\<close>

definition puppeteer_launch :: "env \<Rightarrow> world \<Rightarrow> (thrown + unit) \<times> world" where
  "puppeteer_launch E w =
     (case launch E of
        Some ex \<Rightarrow> (Inl ex, logCall Launch w)
      | None \<Rightarrow> (Inr (), logCall Launch (w\<lparr>openBrowsers := Suc (openBrowsers w)\<rparr>)))"

definition browser_newPage :: "env \<Rightarrow> world \<Rightarrow> (thrown + unit) \<times> world" where
  "browser_newPage E w =
     (case newPage E of Some ex \<Rightarrow> (Inl ex, logCall NewPage w) | None \<Rightarrow> (Inr (), logCall NewPage w))"

definition page_setContent :: "env \<Rightarrow> world \<Rightarrow> string \<Rightarrow> (thrown + unit) \<times> world" where
  "page_setContent E w html =
     (case setContent E html of
        Some ex \<Rightarrow> (Inl ex, logCall (SetContent html) w)
      | None \<Rightarrow> (Inr (), logCall (SetContent html) w))"

definition page_goto :: "env \<Rightarrow> world \<Rightarrow> string \<Rightarrow> (thrown + unit) \<times> world" where
  "page_goto E w url =
     (case goto E url of
        Some ex \<Rightarrow> (Inl ex, logCall (Goto url) w)
      | None \<Rightarrow> (Inr (), logCall (Goto url) w))"

definition page_pdf :: "env \<Rightarrow> world \<Rightarrow> page_source \<Rightarrow> jsvalue \<Rightarrow> (thrown + bytes) \<times> world" where
  "page_pdf E w src pdfOptions = (pdf E src pdfOptions, logCall (PagePdf pdfOptions) w)"

definition browser_close :: "env \<Rightarrow> world \<Rightarrow> world" where
  "browser_close E w =
     (case close E of
        None \<Rightarrow> logCall Close (w\<lparr>openBrowsers := openBrowsers w - 1\<rparr>)
      | Some ex \<Rightarrow> logCall (ConsoleError ''Failed to close browser:'') (logCall Close w))"

text \<open>
  The \<^verbatim>\<open>try\<close> and \<^verbatim>\<open>catch\<close> blocks of \<^verbatim>\<open>convertHtmlToPdf\<close>: the result, the state, and whether the
  variable \<^verbatim>\<open>browser\<close> holds an instance when the \<^verbatim>\<open>finally\<close> block starts.
\<close>

definition tryHtmlToPdf ::
  "env \<Rightarrow> world \<Rightarrow> string \<Rightarrow> jsvalue \<Rightarrow> bool \<times> (bytes, size_meta) ConversionResult \<times> world" where
  "tryHtmlToPdf E w html options =
     (case safeParse HtmlToPdfOptionsSchema options of
        Inl issues \<Rightarrow> (False, failure (''Invalid options: '' @ zod_message E issues), w)
      | Inr d \<Rightarrow>
          (let pdfOptions = JObj (spread PDF_DEFAULT_OPTIONS d) in
           case puppeteer_launch E w of
             (Inl ex, w1) \<Rightarrow> (False, failure (''PDF generation failed: '' @ errorMessage ex), w1)
           | (Inr u1, w1) \<Rightarrow>
               (case browser_newPage E w1 of
                  (Inl ex, w2) \<Rightarrow> (True, failure (''PDF generation failed: '' @ errorMessage ex), w2)
                | (Inr u2, w2) \<Rightarrow>
                    (case page_setContent E w2 html of
                       (Inl ex, w3) \<Rightarrow>
                         (True, failure (''PDF generation failed: '' @ errorMessage ex), w3)
                     | (Inr u3, w3) \<Rightarrow>
                         (case page_pdf E w3 (Content html) pdfOptions of
                            (Inl ex, w4) \<Rightarrow>
                              (True, failure (''PDF generation failed: '' @ errorMessage ex), w4)
                          | (Inr pdfBuffer, w4) \<Rightarrow>
                              (True, succeeded pdfBuffer \<lparr>size' = length pdfBuffer\<rparr>, w4))))))"

text \<open>The \<^verbatim>\<open>finally\<close> block: \<^verbatim>\<open>if (browser) { try { await browser.close() } catch ... }\<close>.\<close>

definition finallyClose :: "env \<Rightarrow> bool \<times> 'r \<times> world \<Rightarrow> 'r \<times> world" where
  "finallyClose E t = (case t of (browser, r, w) \<Rightarrow> (r, if browser then browser_close E w else w))"

definition convertHtmlToPdf ::
  "env \<Rightarrow> world \<Rightarrow> jsvalue \<Rightarrow> jsvalue \<Rightarrow> (bytes, size_meta) ConversionResult \<times> world" where
  "convertHtmlToPdf E w html options =
     (case nonEmptyString html of
        None \<Rightarrow> (failure ''Invalid HTML input: HTML must be a non-empty string'', w)
      | Some h \<Rightarrow> finallyClose E (tryHtmlToPdf E w h options))"

definition convertHtmlFileToPdf ::
  "env \<Rightarrow> world \<Rightarrow> jsvalue \<Rightarrow> jsvalue \<Rightarrow> (bytes, size_meta) ConversionResult \<times> world" where
  "convertHtmlFileToPdf E w filePath options =
     (case readFile E filePath of
        Inl ex \<Rightarrow> (failure (''Failed to read HTML file: '' @ errorMessage ex), w)
      | Inr html \<Rightarrow> convertHtmlToPdf E w (JStr html) options)"

definition tryUrlToPdf ::
  "env \<Rightarrow> world \<Rightarrow> string \<Rightarrow> jsvalue \<Rightarrow> bool \<times> (bytes, size_meta) ConversionResult \<times> world" where
  "tryUrlToPdf E w url options =
     (case safeParse HtmlToPdfOptionsSchema options of
        Inl issues \<Rightarrow> (False, failure (''Invalid options: '' @ zod_message E issues), w)
      | Inr d \<Rightarrow>
          (let pdfOptions = JObj (spread PDF_DEFAULT_OPTIONS d) in
           case puppeteer_launch E w of
             (Inl ex, w1) \<Rightarrow>
               (False, failure (''PDF generation from URL failed: '' @ errorMessage ex), w1)
           | (Inr u1, w1) \<Rightarrow>
               (case browser_newPage E w1 of
                  (Inl ex, w2) \<Rightarrow>
                    (True, failure (''PDF generation from URL failed: '' @ errorMessage ex), w2)
                | (Inr u2, w2) \<Rightarrow>
                    (case page_goto E w2 url of
                       (Inl ex, w3) \<Rightarrow>
                         (True, failure (''PDF generation from URL failed: '' @ errorMessage ex), w3)
                     | (Inr u3, w3) \<Rightarrow>
                         (case page_pdf E w3 (Url url) pdfOptions of
                            (Inl ex, w4) \<Rightarrow>
                              (True,
                               failure (''PDF generation from URL failed: '' @ errorMessage ex), w4)
                          | (Inr pdfBuffer, w4) \<Rightarrow>
                              (True, succeeded pdfBuffer \<lparr>size' = length pdfBuffer\<rparr>, w4))))))"

definition convertUrlToPdf ::
  "env \<Rightarrow> world \<Rightarrow> jsvalue \<Rightarrow> jsvalue \<Rightarrow> (bytes, size_meta) ConversionResult \<times> world" where
  "convertUrlToPdf E w url options =
     (case nonEmptyString url of
        None \<Rightarrow> (failure ''Invalid URL input: URL must be a non-empty string'', w)
      | Some u \<Rightarrow> finallyClose E (tryUrlToPdf E w u options))"


section \<open>HTML to DOCX\<close>

definition DOCX_DEFAULT_OPTIONS :: fields where
  "DOCX_DEFAULT_OPTIONS =
     [(''orientation'', JStr ''portrait''),
      (''margins'', JObj [(''top'', JNum 1440), (''right'', JNum 1440),
                          (''bottom'', JNum 1440), (''left'', JNum 1440)])]"

text \<open>The metadata elements pushed to \<^verbatim>\<open>headContent\<close>, one per truthy option, in this order.\<close>

definition headContent :: "jsvalue \<Rightarrow> string list" where
  \<open>headContent docxOptions =
     (if truthy (getProp docxOptions ''title'')
      then [''<title>'' @ asString (getProp docxOptions ''title'') @ ''</title>''] else [])
     @ (if truthy (getProp docxOptions ''subject'')
        then [''<meta name="subject" content="'' @ asString (getProp docxOptions ''subject'')
              @ ''">''] else [])
     @ (if truthy (getProp docxOptions ''creator'')
        then [''<meta name="creator" content="'' @ asString (getProp docxOptions ''creator'')
              @ ''">''] else [])
     @ (if truthy (getProp docxOptions ''keywords'')
        then [''<meta name="keywords" content="'' @ asString (getProp docxOptions ''keywords'')
              @ ''">''] else [])
     @ (if truthy (getProp docxOptions ''description'')
        then [''<meta name="description" content="''
              @ asString (getProp docxOptions ''description'') @ ''">''] else [])\<close>

text \<open>The separator of \<^verbatim>\<open>headContent.join\<close>: a line feed and fourteen spaces.\<close>

definition headSep :: string where
  "headSep = ''\<newline>              ''"

text \<open>The minimal shell around HTML that has neither an \<^verbatim>\<open><html\<close> nor a \<^verbatim>\<open><head\<close> marker.\<close>

definition wrapInShell :: "string list \<Rightarrow> string \<Rightarrow> string" where
  \<open>wrapInShell hc html =
     ''\<newline>'' @
     ''            <!DOCTYPE html>\<newline>'' @
     ''            <html>\<newline>'' @
     ''            <head>\<newline>'' @
     ''              '' @ join headSep hc @ ''\<newline>'' @
     ''            </head>\<newline>'' @
     ''            <body>\<newline>'' @
     ''              '' @ html @ ''\<newline>'' @
     ''            </body>\<newline>'' @
     ''            </html>\<newline>'' @
     ''          ''\<close>

text \<open>The HTML handed to the emitter (\<^verbatim>\<open>processedHtml\<close>).\<close>

definition processedHtml :: "string \<Rightarrow> jsvalue \<Rightarrow> string" where
  "processedHtml html docxOptions =
     (if truthy (getProp docxOptions ''title'') \<or> truthy (getProp docxOptions ''subject'')
         \<or> truthy (getProp docxOptions ''creator'')
      then
        (if \<not> includesStr html ''<html'' \<and> \<not> includesStr html ''<head''
         then wrapInShell (headContent docxOptions) html
         else if includesStr html ''<head>''
         then replace html ''<head>'' (''<head>'' @ headSep @ join headSep (headContent docxOptions))
         else html)
      else html)"

definition libOptions :: "jsvalue \<Rightarrow> jsvalue" where
  "libOptions docxOptions =
     JObj ((if truthy (getProp docxOptions ''orientation'')
            then [(''orientation'', getProp docxOptions ''orientation'')] else [])
           @ (if truthy (getProp docxOptions ''margins'')
              then [(''margins'', getProp docxOptions ''margins'')] else []))"

definition convertHtmlToDocx ::
  "env \<Rightarrow> world \<Rightarrow> jsvalue \<Rightarrow> jsvalue \<Rightarrow> (bytes, size_meta) ConversionResult \<times> world" where
  "convertHtmlToDocx E w html options =
     (case nonEmptyString html of
        None \<Rightarrow> (failure ''Invalid HTML input: HTML must be a non-empty string'', w)
      | Some h \<Rightarrow>
          (case safeParse HtmlToDocxOptionsSchema options of
             Inl issues \<Rightarrow> (failure (''Invalid options: '' @ zod_message E issues), w)
           | Inr d \<Rightarrow>
               (let docxOptions = JObj (spread DOCX_DEFAULT_OPTIONS d);
                    w1 = logCall (AsBlob (processedHtml h docxOptions) (libOptions docxOptions)) w
                in case asBlob E (processedHtml h docxOptions) (libOptions docxOptions) of
                     Inl ex \<Rightarrow> (failure (''DOCX generation failed: '' @ errorMessage ex), w1)
                   | Inr (ResBuffer docxBuffer) \<Rightarrow>
                       (succeeded docxBuffer \<lparr>size' = length docxBuffer\<rparr>, w1)
                   | Inr (ResBlob (Inr docxBuffer)) \<Rightarrow>
                       (succeeded docxBuffer \<lparr>size' = length docxBuffer\<rparr>, w1)
                   | Inr (ResBlob (Inl ex)) \<Rightarrow>
                       (failure (''DOCX generation failed: '' @ errorMessage ex), w1)
                   | Inr ResOther \<Rightarrow>
                       (failure (''DOCX generation failed: ''
                                 @ ''Unexpected return type from html-docx-js''), w1))))"

definition convertHtmlFileToDocx ::
  "env \<Rightarrow> world \<Rightarrow> jsvalue \<Rightarrow> jsvalue \<Rightarrow> (bytes, size_meta) ConversionResult \<times> world" where
  "convertHtmlFileToDocx E w filePath options =
     (case readFile E filePath of
        Inl ex \<Rightarrow> (failure (''Failed to read HTML file: '' @ errorMessage ex), w)
      | Inr html \<Rightarrow> convertHtmlToDocx E w (JStr html) options)"

definition convertUrlToDocx ::
  "env \<Rightarrow> world \<Rightarrow> jsvalue \<Rightarrow> jsvalue \<Rightarrow> (bytes, size_meta) ConversionResult \<times> world" where
  "convertUrlToDocx E w url options =
     (case nonEmptyString url of
        None \<Rightarrow> (failure ''Invalid URL input: URL must be a non-empty string'', w)
      | Some u \<Rightarrow>
          (case fetch E u of
             Inl ex \<Rightarrow> (failure (''DOCX generation from URL failed: '' @ errorMessage ex), w)
           | Inr resp \<Rightarrow>
               if \<not> ok resp
               then (failure (''Failed to fetch URL: '' @ showNat (status resp) @ '' ''
                              @ statusText resp), w)
               else
                 (case body_text resp of
                    Inl ex \<Rightarrow>
                      (failure (''DOCX generation from URL failed: '' @ errorMessage ex), w)
                  | Inr html \<Rightarrow> convertHtmlToDocx E w (JStr html) options)))"

section \<open>The pipeline composers\<close>

text \<open>
  \<^verbatim>\<open>!result.success || !result.data\<close>: the data of the Markdown stage is a string, which is falsy
  when empty; the data of a binary stage is a buffer object, which is falsy only when absent.
\<close>

definition htmlStageFailed :: "(string, 'm) ConversionResult \<Rightarrow> bool" where
  "htmlStageFailed r = (\<not> success r \<or> data r = None \<or> data r = Some [])"

definition binaryStageFailed :: "(bytes, 'm) ConversionResult \<Rightarrow> bool" where
  "binaryStageFailed r = (\<not> success r \<or> data r = None)"

text \<open>The data a composer goes on with, when the test above does not fire.\<close>

definition stageData ::
  "(('d, 'm) ConversionResult \<Rightarrow> bool) \<Rightarrow> ('d, 'm) ConversionResult \<Rightarrow> 'd option" where
  "stageData failed r = (if failed r then None else data r)"

text \<open>An optional error inside a template literal, and \<^verbatim>\<open>result.error || fallback\<close>.\<close>

definition errorText :: "string option \<Rightarrow> string" where
  "errorText e = (case e of None \<Rightarrow> ''undefined'' | Some m \<Rightarrow> m)"

definition errorOr :: "string option \<Rightarrow> string \<Rightarrow> string" where
  "errorOr e fallback = (case e of None \<Rightarrow> fallback | Some m \<Rightarrow> if m = [] then fallback else m)"

definition docxMarkdownOptions :: "jsvalue \<Rightarrow> jsvalue" where
  "docxMarkdownOptions opts =
     JObj [(''sanitize'', getProp opts ''sanitize''),
           (''breaks'', getProp opts ''breaks''),
           (''gfm'', getProp opts ''gfm''),
           (''mangle'', getProp opts ''mangle''),
           (''pedantic'', getProp opts ''pedantic''),
           (''sanitizerOptions'', getProp opts ''sanitizerOptions'')]"

definition docxStageOptions :: "jsvalue \<Rightarrow> jsvalue" where
  "docxStageOptions opts =
     JObj [(''orientation'', getProp opts ''orientation''),
           (''margins'', getProp opts ''margins''),
           (''title'', getProp opts ''title''),
           (''subject'', getProp opts ''subject''),
           (''creator'', getProp opts ''creator''),
           (''keywords'', getProp opts ''keywords''),
           (''description'', getProp opts ''description'')]"

text \<open>
  The intermediate HTML handed to the DOCX stage: the output of the Markdown stage, wrapped
  as a full document unless \<^verbatim>\<open>fullDocument\<close> is \<^verbatim>\<open>false\<close>.
\<close>

definition docxPipelineHtml :: "jsvalue \<Rightarrow> string \<Rightarrow> string" where
  "docxPipelineHtml opts html =
     (if getProp opts ''fullDocument'' \<noteq> JBool False
      then createFullHtmlDocument html (orElse (getProp opts ''title'') ''Document'')
             (getProp opts ''cssStyles'')
      else html)"

definition convertMarkdownToDocx ::
  "env \<Rightarrow> world \<Rightarrow> jsvalue \<Rightarrow> jsvalue \<Rightarrow> (bytes, md_docx_meta) ConversionResult \<times> world" where
  "convertMarkdownToDocx E w markdown options =
     (case nonEmptyString markdown of
        None \<Rightarrow> (failure invalidMarkdown, w)
      | Some md \<Rightarrow>
          (case safeParse MarkdownToDocxOptionsSchema options of
             Inl issues \<Rightarrow> (failure (''Invalid options: '' @ zod_message E issues), w)
           | Inr d \<Rightarrow>
               (let opts = dataOrEmpty d in
                case convertMarkdownToHtml E w (JStr md) (docxMarkdownOptions opts) of
                  (htmlResult, w1) \<Rightarrow>
                    (case stageData htmlStageFailed htmlResult of
                       None \<Rightarrow>
                         (failure (errorOr (error htmlResult)
                                     ''Failed to convert markdown to HTML''), w1)
                     | Some stageHtml \<Rightarrow>
                         (let html = docxPipelineHtml opts stageHtml in
                          case convertHtmlToDocx E w1 (JStr html) (docxStageOptions opts) of
                            (docxResult, w2) \<Rightarrow>
                              (case stageData binaryStageFailed docxResult of
                                 None \<Rightarrow>
                                   (failure (errorOr (error docxResult)
                                               ''Failed to convert HTML to DOCX''), w2)
                               | Some docxData \<Rightarrow>
                                   (succeeded docxData
                                      \<lparr>originalLength =
                                         (case metadata htmlResult of
                                            None \<Rightarrow> length md
                                          | Some m \<Rightarrow>
                                              if originalLength m = 0 then length md
                                              else originalLength m),
                                       htmlLength =
                                         (case metadata htmlResult of
                                            None \<Rightarrow> length html
                                          | Some m \<Rightarrow>
                                              if htmlLength m = 0 then length html
                                              else htmlLength m),
                                       sanitized =
                                         (case metadata htmlResult of
                                            None \<Rightarrow> False
                                          | Some m \<Rightarrow> sanitized m),
                                       docxSize = length docxData\<rparr>, w2)))))))"

definition convertMarkdownFileToDocx ::
  "env \<Rightarrow> world \<Rightarrow> jsvalue \<Rightarrow> jsvalue \<Rightarrow> (bytes, md_docx_meta) ConversionResult \<times> world" where
  "convertMarkdownFileToDocx E w filePath options =
     (case readFile E filePath of
        Inl ex \<Rightarrow> (failure (''Failed to read markdown file: '' @ errorMessage ex), w)
      | Inr markdown \<Rightarrow> convertMarkdownToDocx E w (JStr markdown) options)"

text \<open>
  The HTML handed to the PDF stage: wrapped as a full document unless
  \<^verbatim>\<open>documentOptions.fullDocument\<close> is \<^verbatim>\<open>false\<close>.
\<close>

definition pdfPipelineHtml :: "jsvalue \<Rightarrow> string \<Rightarrow> string" where
  "pdfPipelineHtml opts html =
     (if getProp (getProp opts ''documentOptions'') ''fullDocument'' \<noteq> JBool False
      then createFullHtmlDocument html
             (orElse (getProp (getProp opts ''documentOptions'') ''title'') ''Document'')
             (getProp (getProp opts ''documentOptions'') ''cssStyles'')
      else html)"

definition convertMarkdownToPdf ::
  "env \<Rightarrow> world \<Rightarrow> jsvalue \<Rightarrow> jsvalue \<Rightarrow> (bytes, md_pdf_meta) ConversionResult \<times> world" where
  "convertMarkdownToPdf E w markdown options =
     (case nonEmptyString markdown of
        None \<Rightarrow> (failure invalidMarkdown, w)
      | Some md \<Rightarrow>
          (case safeParse MarkdownToPdfOptionsSchema options of
             Inl issues \<Rightarrow> (failure (''Invalid options: '' @ zod_message E issues), w)
           | Inr d \<Rightarrow>
               (let opts = dataOrEmpty d in
                case convertMarkdownToHtml E w (JStr md) (getProp opts ''markdownOptions'') of
                  (htmlResult, w1) \<Rightarrow>
                    (case stageData htmlStageFailed htmlResult of
                       None \<Rightarrow>
                         (failure (''Markdown to HTML conversion failed: ''
                                   @ errorText (error htmlResult)), w1)
                     | Some stageHtml \<Rightarrow>
                         (let html = pdfPipelineHtml opts stageHtml in
                          case convertHtmlToPdf E w1 (JStr html) (getProp opts ''pdfOptions'') of
                            (pdfResult, w2) \<Rightarrow>
                              (case stageData binaryStageFailed pdfResult of
                                 None \<Rightarrow>
                                   (failure (''HTML to PDF conversion failed: ''
                                             @ errorText (error pdfResult)), w2)
                               | Some pdfData \<Rightarrow>
                                   (succeeded pdfData
                                      \<lparr>markdownLength = length md,
                                       pdf_htmlLength = length html,
                                       pdfSize = length pdfData,
                                       pdf_sanitized =
                                         (case metadata htmlResult of
                                            None \<Rightarrow> False
                                          | Some m \<Rightarrow> sanitized m)\<rparr>, w2)))))))"

definition convertMarkdownFileToPdf ::
  "env \<Rightarrow> world \<Rightarrow> jsvalue \<Rightarrow> jsvalue \<Rightarrow> (bytes, md_pdf_meta) ConversionResult \<times> world" where
  "convertMarkdownFileToPdf E w filePath options =
     (case readFile E filePath of
        Inl ex \<Rightarrow> (failure (''Failed to read markdown file: '' @ errorMessage ex), w)
      | Inr markdown \<Rightarrow> convertMarkdownToPdf E w (JStr markdown) options)"

subsection \<open>The batch variant\<close>

text \<open>
  A section is an object \<^verbatim>\<open>{ content, title? }\<close>. The content is checked at run time, so it is
  any value; the title is a string or absent.
\<close>

record section_md =
  content :: jsvalue
  title :: "string option"

definition pageBreak :: string where
  \<open>pageBreak = ''\<newline>\<newline><div style="page-break-after: always;"></div>\<newline>\<newline>''\<close>

text \<open>
  The loop \<^verbatim>\<open>for (let i = 0; i < markdownContents.length; i++)\<close>, started at index \<open>i\<close> on the
  sections from \<open>i\<close> on, with \<open>n\<close> the length of the whole array. It returns the index of the
  first section whose content is not a non-empty string, or the combined Markdown and the sum
  of the content lengths.
\<close>

fun combineLoop ::
  "nat \<Rightarrow> nat \<Rightarrow> section_md list \<Rightarrow> string \<Rightarrow> nat \<Rightarrow> nat + (string \<times> nat)" where
  "combineLoop n i [] combinedMarkdown totalMarkdownLength =
     Inr (combinedMarkdown, totalMarkdownLength)"
| "combineLoop n i (s # rest) combinedMarkdown totalMarkdownLength =
     (case nonEmptyString (content s) of
        None \<Rightarrow> Inl i
      | Some c \<Rightarrow>
          (let withTitle =
                 (case title s of
                    None \<Rightarrow> combinedMarkdown
                  | Some t \<Rightarrow>
                      if t \<noteq> [] then combinedMarkdown @ ''# '' @ t @ ''\<newline>\<newline>''
                      else combinedMarkdown);
               withContent = withTitle @ c;
               withBreak = (if i < n - 1 then withContent @ pageBreak else withContent)
           in combineLoop n (Suc i) rest withBreak (totalMarkdownLength + length c)))"

definition convertMultipleMarkdownToPdf ::
  "env \<Rightarrow> world \<Rightarrow> section_md list \<Rightarrow> jsvalue
     \<Rightarrow> (bytes, md_pdf_meta) ConversionResult \<times> world" where
  "convertMultipleMarkdownToPdf E w markdownContents options =
     (if markdownContents = []
      then (failure ''Invalid input: markdownContents must be a non-empty array'', w)
      else
        (case combineLoop (length markdownContents) 0 markdownContents [] 0 of
           Inl i \<Rightarrow>
             (failure (''Invalid markdown content at index '' @ showNat i
                       @ '': content must be a non-empty string''), w)
         | Inr (combinedMarkdown, totalMarkdownLength) \<Rightarrow>
             (case convertMarkdownToPdf E w (JStr combinedMarkdown) options of
                (result, w1) \<Rightarrow>
                  (case metadata result of
                     Some m \<Rightarrow>
                       if success result
                       then result\<lparr>metadata := Some (m\<lparr>markdownLength := totalMarkdownLength\<rparr>)\<rparr>
                       else result
                   | None \<Rightarrow> result,
                   w1))))"


section \<open>Properties to be verified: auxiliary notions\<close>

text \<open>The result envelope: exactly one of \<open>data\<close> and \<open>error\<close> is present, as \<open>success\<close> says.\<close>

definition envelope :: "('d, 'm) ConversionResult \<Rightarrow> bool" where
  "envelope r =
     ((success r \<longrightarrow> data r \<noteq> None \<and> error r = None)
      \<and> (\<not> success r \<longrightarrow> error r \<noteq> None \<and> data r = None))"

text \<open>
  The combined document of the batch variant as the specification words it: each section is
  its heading line, when it has a (non-empty) title, followed by its content, and the page-break
  marker stands between consecutive sections.
\<close>

definition sectionText :: "section_md \<Rightarrow> string" where
  "sectionText s =
     (case title s of
        None \<Rightarrow> []
      | Some t \<Rightarrow> if t \<noteq> [] then ''# '' @ t @ ''\<newline>\<newline>'' else [])
     @ asString (content s)"

definition combinedDocument :: "section_md list \<Rightarrow> string" where
  "combinedDocument sections = join pageBreak (map sectionText sections)"

definition totalContentLength :: "section_md list \<Rightarrow> nat" where
  "totalContentLength sections = sum_list (map (\<lambda>s. length (asString (content s))) sections)"

definition validContent :: "section_md \<Rightarrow> bool" where
  "validContent s = (nonEmptyString (content s) \<noteq> None)"

text \<open>The index of the first section whose content is not a non-empty string.\<close>

definition firstInvalid :: "section_md list \<Rightarrow> nat" where
  "firstInvalid sections = length (takeWhile validContent sections)"

text \<open>The keys an options schema knows at its top level, and the five schemas of the converters.\<close>

fun shapeKeys :: "zschema \<Rightarrow> string list" where
  "shapeKeys (ZOptional (ZObject shape)) = map fst shape"
| "shapeKeys (ZObject shape) = map fst shape"
| "shapeKeys s = []"


text \<open>A schema whose object shapes name every key once, as an object literal does.\<close>

fun distinctKeys :: "zschema \<Rightarrow> bool" where
  "distinctKeys (ZArray s) = distinctKeys s"
| "distinctKeys (ZRecord s) = distinctKeys s"
| "distinctKeys (ZOptional s) = distinctKeys s"
| "distinctKeys (ZObject shape) =
     (distinct (map fst shape) \<and> list_all (\<lambda>ks. distinctKeys (snd ks)) shape)"
| "distinctKeys s = True"

text \<open>The option an issue is about: the key at the head of its path.\<close>

fun issueField :: "zod_issue \<Rightarrow> string" where
  "issueField (Issue c (Key k # rest)) = k"
| "issueField i = []"

subsection \<open>A sample environment\<close>

text \<open>
  An environment in which every collaborator answers: the parser wraps its input in a
  paragraph, the sanitizer is the identity, the engine and the emitter return a few bytes, and
  a validation error is rendered as the keys at the head of the paths of its issues.
\<close>

definition sampleEnv :: env where
  "sampleEnv =
     \<lparr>zod_message = (\<lambda>issues. join '', '' (map issueField issues)),
      marked_parse = (\<lambda>opts md. Inr (''<p>'' @ md @ ''</p>'')),
      sanitizeHtml = (\<lambda>html opts. Inr html),
      launch = None,
      newPage = None,
      setContent = (\<lambda>html. None),
      goto = (\<lambda>url. None),
      pdf = (\<lambda>src opts. Inr [0x25, 0x50, 0x44, 0x46]),
      close = None,
      asBlob = (\<lambda>html opts. Inr (ResBuffer [0x50, 0x4B])),
      readFile = (\<lambda>path. Inr ''# Hi''),
      fetch = (\<lambda>url. Inr \<lparr>ok = True, status = 200, statusText = ''OK'',
                               body_text = Inr ''<p>x</p>''\<rparr>)\<rparr>"

definition world0 :: world where
  "world0 = \<lparr>markedOptions = \<lparr>breaks = False, gfm = False, pedantic = True\<rparr>,
             openBrowsers = 0, calls = []\<rparr>"


section \<open>Lemmas on the validator\<close>

lemma mergeObject_isl:
  "isl (mergeObject rs) \<longleftrightarrow> (\<exists>x\<in>set rs. isl (snd (snd x)))"
  by (induction rs rule: mergeObject.induct) (auto split: sum.splits)

lemma mergeArray_isl:
  "isl (mergeArray rs) \<longleftrightarrow> (\<exists>x\<in>set rs. isl x)"
  by (induction rs rule: mergeArray.induct) (auto split: sum.splits)

lemma mergeObject_Inr:
  "mergeObject rs = Inr out \<Longrightarrow>
   out = map (\<lambda>x. (fst x, projr (snd (snd x))))
           (filter (\<lambda>x. projr (snd (snd x)) \<noteq> JUndefined \<or> fst (snd x)) rs)"
  by (induction rs arbitrary: out rule: mergeObject.induct) (auto split: sum.splits if_splits)

lemma mergeArray_Inr:
  "mergeArray rs = Inr vs \<Longrightarrow> rs = map Inr vs"
  by (induction rs arbitrary: vs rule: mergeArray.induct) (auto split: sum.splits)

lemma mergeArray_map_Inr: "mergeArray (map Inr vs) = Inr vs"
  by (induction vs) auto

lemma zparse_object_isl:
  "isl (zparse (ZObject shape) p (JObj fs)) \<longleftrightarrow>
   (\<exists>ks\<in>set shape. isl (zparse (snd ks) (p @ [Key (fst ks)]) (getField fs (fst ks))))"
  by (simp add: mergeObject_isl isl_map_sum)


lemma zparse_object_keys:
  assumes "zparse (ZObject shape) p (JObj fs) = Inr d"
  shows "\<exists>out. d = JObj out \<and> set (map fst out) \<subseteq> set (map fst shape)"
proof -
  from assms obtain out where
    m: "mergeObject (map (\<lambda>ks. (fst ks, hasKey fs (fst ks),
           zparse (snd ks) (p @ [Key (fst ks)]) (getField fs (fst ks)))) shape) = Inr out"
    and d: "d = JObj out"
    by (cases "mergeObject (map (\<lambda>ks. (fst ks, hasKey fs (fst ks),
           zparse (snd ks) (p @ [Key (fst ks)]) (getField fs (fst ks)))) shape)") auto
  from mergeObject_Inr [OF m] have "set (map fst out) \<subseteq> set (map fst shape)"
    by force
  with d show ?thesis by blast
qed

lemma mergeObject_keys:
  "mergeObject rs = Inr out \<Longrightarrow> set (map fst out) \<subseteq> set (map fst rs)"
  by (drule mergeObject_Inr) force

lemma mergeObject_map_of:
  "mergeObject rs = Inr out \<Longrightarrow> distinct (map fst rs) \<Longrightarrow> (k, a, r) \<in> set rs \<Longrightarrow>
   \<exists>v. r = Inr v \<and> map_of out k = (if v \<noteq> JUndefined \<or> a then Some v else None)"
proof (induction rs arbitrary: out rule: mergeObject.induct)
  case 1
  then show ?case by simp
next
  case (2 k' a' r' rs)
  from "2.prems"(1) obtain v' out' where r': "r' = Inr v'" and m: "mergeObject rs = Inr out'"
    and out: "out = (if v' \<noteq> JUndefined \<or> a' then (k', v') # out' else out')"
    by (auto split: sum.splits)
  from "2.prems"(2) have dist: "distinct (map fst rs)" and notin: "k' \<notin> set (map fst rs)"
    by auto
  show ?case
  proof (cases "(k, a, r) = (k', a', r')")
    case True
    from mergeObject_keys [OF m] notin have "k' \<notin> set (map fst out')" by blast
    then have "map_of out' k' = None" by (simp add: map_of_eq_None_iff)
    with True r' out show ?thesis by auto
  next
    case False
    with "2.prems"(3) have mem: "(k, a, r) \<in> set rs" by auto
    then have "k \<in> set (map fst rs)" by force
    with notin have "k \<noteq> k'" by blast
    with "2.IH" [OF m dist mem] out show ?thesis by auto
  qed
qed

lemma zparse_object_field:
  assumes ok: "zparse (ZObject shape) p (JObj fs) = Inr (JObj out)"
    and dist: "distinct (map fst shape)"
    and mem: "(k, s) \<in> set shape"
  shows "zparse s (p @ [Key k]) (getField fs k) = Inr (getField out k)"
    and "hasKey out k = (getField out k \<noteq> JUndefined \<or> hasKey fs k)"
proof -
  let ?f = "\<lambda>ks. (fst ks, hasKey fs (fst ks),
                   zparse (snd ks) (p @ [Key (fst ks)]) (getField fs (fst ks)))"
  from ok have m: "mergeObject (map ?f shape) = Inr out"
    by (cases "mergeObject (map ?f shape)") auto
  have d: "distinct (map fst (map ?f shape))"
    using dist by (simp add: comp_def)
  have "(k, hasKey fs k, zparse s (p @ [Key k]) (getField fs k)) \<in> set (map ?f shape)"
    using mem by force
  from mergeObject_map_of [OF m d this] obtain v where
    v: "zparse s (p @ [Key k]) (getField fs k) = Inr v"
    and mo: "map_of out k = (if v \<noteq> JUndefined \<or> hasKey fs k then Some v else None)"
    by blast
  from mo have g: "getField out k = v"
    by (auto simp: getField_def split: if_splits)
  with v show "zparse s (p @ [Key k]) (getField fs k) = Inr (getField out k)" by simp
  from mo g show "hasKey out k = (getField out k \<noteq> JUndefined \<or> hasKey fs k)"
    by (auto simp: hasKey_def split: if_splits)
qed

lemma mergeObject_same:
  "(\<forall>ks\<in>set shape. \<exists>v. F ks = Inr v \<and> G ks = Inr v
       \<and> ((v \<noteq> JUndefined \<or> a ks) \<longleftrightarrow> (v \<noteq> JUndefined \<or> b ks))) \<Longrightarrow>
   mergeObject (map (\<lambda>ks. (fst ks, a ks, F ks)) shape)
   = mergeObject (map (\<lambda>ks. (fst ks, b ks, G ks)) shape)"
  by (induction shape) (auto split: sum.splits)

lemma mergeObject_all_set:
  "mergeObject (map (\<lambda>kx. (fst kx, True, F kx)) xs) = Inr out \<Longrightarrow>
   list_all2 (\<lambda>kx ov. fst ov = fst kx \<and> F kx = Inr (snd ov)) xs out"
  by (induction xs arbitrary: out) (auto split: sum.splits)

lemma mergeObject_fixed:
  "(\<forall>kx\<in>set out. F kx = Inr (snd kx)) \<Longrightarrow>
   mergeObject (map (\<lambda>kx. (fst kx, True, F kx)) out) = Inr out"
  by (induction out) auto

lemma mergeArray_fixed:
  "(\<forall>ix\<in>set ys. F ix = Inr (snd ix)) \<Longrightarrow> mergeArray (map F ys) = Inr (map snd ys)"
  by (induction ys) auto

lemma map_snd_enumerate: "map snd (enumerate n xs) = xs"
  by (induction xs arbitrary: n) auto

lemma snd_in_enumerate: "ix \<in> set (enumerate n xs) \<Longrightarrow> snd ix \<in> set xs"
  by (induction xs arbitrary: n) auto

lemma zparse_idem:
  "distinctKeys s \<Longrightarrow> zparse s p v = Inr v' \<Longrightarrow> zparse s q v' = Inr v'"
proof (induction s arbitrary: p q v v')
  case ZString
  then show ?case by (auto split: jsvalue.splits)
next
  case ZBoolean
  then show ?case by (auto split: jsvalue.splits)
next
  case (ZNumber lo hi)
  then show ?case by (auto simp: Let_def split: jsvalue.splits if_splits)
next
  case (ZEnum vals)
  then show ?case by (auto split: jsvalue.splits if_splits)
next
  case (ZArray s)
  from ZArray.prems(2) obtain xs where v: "v = JArr xs" by (cases v) auto
  let ?F = "\<lambda>ix. zparse s (p @ [Index (fst ix)]) (snd ix)"
  from ZArray.prems(2) v obtain vs where
    m: "mergeArray (map ?F (enumerate 0 xs)) = Inr vs" and v': "v' = JArr vs"
    by (cases "mergeArray (map ?F (enumerate 0 xs))") auto
  have "\<forall>y\<in>set vs. \<exists>ix. ?F ix = Inr y"
  proof
    fix y assume "y \<in> set vs"
    then have "Inr y \<in> set (map Inr vs)" by simp
    with mergeArray_Inr [OF m] have "Inr y \<in> set (map ?F (enumerate 0 xs))" by simp
    then obtain ix where "?F ix = Inr y" by (auto simp: image_iff)
    then show "\<exists>ix. ?F ix = Inr y" ..
  qed
  moreover from ZArray.prems(1) have ds: "distinctKeys s" by simp
  ultimately have fixed: "\<forall>y\<in>set vs. \<forall>q'. zparse s q' y = Inr y"
    using ZArray.IH by blast
  have "\<forall>ix\<in>set (enumerate 0 vs). zparse s (q @ [Index (fst ix)]) (snd ix) = Inr (snd ix)"
  proof
    fix ix assume "ix \<in> set (enumerate 0 vs)"
    then have "snd ix \<in> set vs" by (rule snd_in_enumerate)
    with fixed show "zparse s (q @ [Index (fst ix)]) (snd ix) = Inr (snd ix)" by blast
  qed
  from mergeArray_fixed [of "enumerate 0 vs" "\<lambda>ix. zparse s (q @ [Index (fst ix)]) (snd ix)", OF this]
  show ?case by (simp add: v' map_snd_enumerate)
next
  case (ZRecord s)
  from ZRecord.prems(2) obtain fs where v: "v = JObj fs" by (cases v) auto
  let ?F = "\<lambda>kx. zparse s (p @ [Key (fst kx)]) (snd kx)"
  from ZRecord.prems(2) v obtain out where
    m: "mergeObject (map (\<lambda>kx. (fst kx, True, ?F kx)) (AList.clearjunk fs)) = Inr out"
    and v': "v' = JObj out"
    by (cases "mergeObject (map (\<lambda>kx. (fst kx, True, ?F kx)) (AList.clearjunk fs))") auto
  from mergeObject_all_set [OF m]
  have la: "list_all2 (\<lambda>kx ov. fst ov = fst kx \<and> ?F kx = Inr (snd ov)) (AList.clearjunk fs) out" .
  then have "map fst out = map fst (AList.clearjunk fs)"
    by (induction rule: list_all2_induct) auto
  then have "distinct (map fst out)" by (simp add: distinct_clearjunk)
  then have cj: "AList.clearjunk out = out" by (rule distinct_clearjunk_id)
  from la have "\<forall>ov\<in>set out. \<exists>kx. ?F kx = Inr (snd ov)"
    by (induction rule: list_all2_induct) auto
  moreover from ZRecord.prems(1) have ds: "distinctKeys s" by simp
  ultimately have "\<forall>ov\<in>set out. zparse s (q @ [Key (fst ov)]) (snd ov) = Inr (snd ov)"
    using ZRecord.IH by blast
  from mergeObject_fixed [of out "\<lambda>kx. zparse s (q @ [Key (fst kx)]) (snd kx)", OF this]
  show ?case by (simp add: v' cj)
next
  case (ZObject shape)
  from ZObject.prems(2) obtain fs where v: "v = JObj fs" by (cases v) auto
  let ?F = "\<lambda>ks. zparse (snd ks) (p @ [Key (fst ks)]) (getField fs (fst ks))"
  from ZObject.prems(2) v obtain out where
    m: "mergeObject (map (\<lambda>ks. (fst ks, hasKey fs (fst ks), ?F ks)) shape) = Inr out"
    and v': "v' = JObj out"
    by (cases "mergeObject (map (\<lambda>ks. (fst ks, hasKey fs (fst ks), ?F ks)) shape)") auto
  from ZObject.prems(2) v v' have ok: "zparse (ZObject shape) p (JObj fs) = Inr (JObj out)"
    by simp
  from ZObject.prems(1) have dist: "distinct (map fst shape)"
    and sub: "\<forall>ks\<in>set shape. distinctKeys (snd ks)"
    by (auto simp: list_all_iff)
  let ?G = "\<lambda>ks. zparse (snd ks) (q @ [Key (fst ks)]) (getField out (fst ks))"
  have "\<forall>ks\<in>set shape. \<exists>w. ?G ks = Inr w \<and> ?F ks = Inr w
          \<and> ((w \<noteq> JUndefined \<or> hasKey out (fst ks)) \<longleftrightarrow> (w \<noteq> JUndefined \<or> hasKey fs (fst ks)))"
  proof
    fix ks assume mem: "ks \<in> set shape"
    then have mem': "(fst ks, snd ks) \<in> set shape" by simp
    note f = zparse_object_field [OF ok dist mem']
    have "snd ks \<in> Basic_BNFs.snds ks" by (cases ks) simp
    from ZObject.IH [OF mem this _ f(1)] sub mem
    have "?G ks = Inr (getField out (fst ks))" by blast
    with f show "\<exists>w. ?G ks = Inr w \<and> ?F ks = Inr w
          \<and> ((w \<noteq> JUndefined \<or> hasKey out (fst ks)) \<longleftrightarrow> (w \<noteq> JUndefined \<or> hasKey fs (fst ks)))"
      by auto
  qed
  from mergeObject_same [of shape ?G ?F "\<lambda>ks. hasKey out (fst ks)" "\<lambda>ks. hasKey fs (fst ks)", OF this] m
  show ?case by (simp add: v')
next
  case (ZOptional s)
  then show ?case by (auto split: if_splits)
qed

lemma getField_Cons: "getField ((k, v) # fs) k' = (if k' = k then v else getField fs k')"
  by (simp add: getField_def)

lemma safeParse_optional_object:
  "safeParse (ZOptional (ZObject shape)) (JObj fs) = zparse (ZObject shape) [] (JObj fs)"
  by (simp add: safeParse_def)

lemma zparse_object_isl_ex:
  "isl (zparse (ZObject shape) p (JObj fs)) \<longleftrightarrow>
   list_ex (\<lambda>ks. isl (zparse (snd ks) (p @ [Key (fst ks)]) (getField fs (fst ks)))) shape"
  by (simp only: zparse_object_isl list_ex_iff)

lemma mergeObject_Inr_all:
  "mergeObject rs = Inr out \<Longrightarrow> r \<in> set rs \<Longrightarrow> \<not> isl (snd (snd r))"
  using mergeObject_isl [of rs] by auto

lemma mergeObject_issues:
  "mergeObject rs = Inl is \<Longrightarrow>
   set is = (\<Union>r\<in>set rs. case snd (snd r) of Inl js \<Rightarrow> set js | Inr v \<Rightarrow> {})"
proof (induction rs arbitrary: "is" rule: mergeObject.induct)
  case 1
  then show ?case by simp
next
  case (2 k a r rs)
  show ?case
  proof (cases "mergeObject rs")
    case (Inl js)
    with 2 show ?thesis by (auto split: sum.splits)
  next
    case (Inr out)
    then have "\<forall>r\<in>set rs. \<not> isl (snd (snd r))" by (blast dest: mergeObject_Inr_all)
    then have "(\<Union>r\<in>set rs. case snd (snd r) of Inl js \<Rightarrow> set js | Inr v \<Rightarrow> {}) = {}"
      by (auto split: sum.splits)
    with 2 Inr show ?thesis by (auto split: sum.splits)
  qed
qed

text \<open>
  Claim C7. Validation of the \<^verbatim>\<open>scale\<close> option of the HTML to PDF options: on top of any
  options object that validates, \<^verbatim>\<open>scale = 2.1\<close> fails validation, and \<^verbatim>\<open>scale = 2.0\<close> and
  \<^verbatim>\<open>scale = 0.1\<close> both pass: the bounds of the interval from 0.1 to 2 are inclusive.
  (The three literals compare the same way as rationals and as doubles.)
\<close>

theorem scale_bounds_inclusive:
  assumes "safeParse HtmlToPdfOptionsSchema (JObj fs) = Inr d"
  shows "isl (safeParse HtmlToPdfOptionsSchema (JObj ((''scale'', JNum (21 / 10)) # fs)))
     \<and> \<not> isl (safeParse HtmlToPdfOptionsSchema (JObj ((''scale'', JNum 2) # fs)))
     \<and> \<not> isl (safeParse HtmlToPdfOptionsSchema (JObj ((''scale'', JNum (1 / 10)) # fs)))"
proof -
  from assms have "\<not> isl (zparse (ZObject pdfFields) [] (JObj fs))"
    by (simp add: HtmlToPdfOptionsSchema_def safeParse_optional_object)
  then have others:
    "\<not> list_ex (\<lambda>ks. isl (zparse (snd ks) ([] @ [Key (fst ks)]) (getField fs (fst ks)))) pdfFields"
    unfolding zparse_object_isl_ex .
  have gen: "isl (safeParse HtmlToPdfOptionsSchema (JObj ((''scale'', JNum x) # fs)))
      \<longleftrightarrow> x < 1 / 10 \<or> 2 < x" for x
  proof -
    have "isl (safeParse HtmlToPdfOptionsSchema (JObj ((''scale'', JNum x) # fs)))
      \<longleftrightarrow> list_ex (\<lambda>ks. isl (zparse (snd ks) ([] @ [Key (fst ks)])
                  (getField ((''scale'', JNum x) # fs) (fst ks)))) pdfFields"
      by (simp only: HtmlToPdfOptionsSchema_def safeParse_optional_object zparse_object_isl_ex)
    also have "\<dots> \<longleftrightarrow> isl (zparse (ZOptional (ZNumber (Some (1 / 10)) (Some 2))) [Key ''scale''] (JNum x))"
      using others by (simp add: pdfFields_def getField_Cons del: zparse.simps)
    also have "\<dots> \<longleftrightarrow> x < 1 / 10 \<or> 2 < x"
      by (auto simp: Let_def)
    finally show ?thesis .
  qed
  show ?thesis by (simp add: gen)
qed

theorem scale_bounds_inclusive_witness:
  "safeParse HtmlToPdfOptionsSchema (JObj [(''format'', JStr ''Letter'')])
     = Inr (JObj [(''format'', JStr ''Letter'')])
   \<and> isl (safeParse HtmlToPdfOptionsSchema
            (JObj [(''scale'', JNum (21 / 10)), (''format'', JStr ''Letter'')]))
   \<and> \<not> isl (safeParse HtmlToPdfOptionsSchema
              (JObj [(''scale'', JNum 2), (''format'', JStr ''Letter'')]))
   \<and> \<not> isl (safeParse HtmlToPdfOptionsSchema
              (JObj [(''scale'', JNum (1 / 10)), (''format'', JStr ''Letter'')]))"
proof -
  have h: "safeParse HtmlToPdfOptionsSchema (JObj [(''format'', JStr ''Letter'')])
     = Inr (JObj [(''format'', JStr ''Letter'')])"
    by (simp add: safeParse_def HtmlToPdfOptionsSchema_def pdfFields_def hasKey_def getField_def)
  from scale_bounds_inclusive [OF h] h show ?thesis by simp
qed

section \<open>Unknown option fields\<close>






section \<open>Rejected options\<close>

lemma mergeArray_Inr_all:
  "mergeArray rs = Inr out \<Longrightarrow> r \<in> set rs \<Longrightarrow> \<not> isl r"
  using mergeArray_isl [of rs] by auto

lemma mergeArray_issues:
  "mergeArray rs = Inl is \<Longrightarrow>
   set is = (\<Union>r\<in>set rs. case r of Inl js \<Rightarrow> set js | Inr v \<Rightarrow> {})"
proof (induction rs arbitrary: "is" rule: mergeArray.induct)
  case 1
  then show ?case by simp
next
  case (2 r rs)
  show ?case
  proof (cases "mergeArray rs")
    case (Inl js)
    with 2 show ?thesis by (auto split: sum.splits)
  next
    case (Inr out)
    then have "\<forall>r\<in>set rs. \<not> isl r" by (blast dest: mergeArray_Inr_all)
    then have "(\<Union>r\<in>set rs. case r of Inl js \<Rightarrow> set js | Inr v \<Rightarrow> {}) = {}"
      by (auto split: sum.splits)
    with 2 Inr show ?thesis by (auto split: sum.splits)
  qed
qed

lemma mergeObject_Inl_all:
  assumes m: "mergeObject rs = Inl is"
    and each: "\<forall>r\<in>set rs. \<forall>js. snd (snd r) = Inl js \<longrightarrow> js \<noteq> [] \<and> (\<forall>i\<in>set js. P i)"
  shows "is \<noteq> [] \<and> (\<forall>i\<in>set is. P i)"
proof -
  note s = mergeObject_issues [OF m]
  from m have "isl (mergeObject rs)" by simp
  then obtain r where r0: "r \<in> set rs" "isl (snd (snd r))"
    by (auto simp: mergeObject_isl)
  then obtain js where r: "r \<in> set rs" "snd (snd r) = Inl js"
    by (auto simp: isl_def)
  with each have "js \<noteq> []" by blast
  then obtain j where "j \<in> set js" by (cases js) auto
  with r s have "j \<in> set is" by force
  then have "is \<noteq> []" by auto
  moreover have "\<forall>i\<in>set is. P i"
    using s each by (auto split: sum.splits)
  ultimately show ?thesis by blast
qed

lemma mergeArray_Inl_all:
  assumes m: "mergeArray rs = Inl is"
    and each: "\<forall>r\<in>set rs. \<forall>js. r = Inl js \<longrightarrow> js \<noteq> [] \<and> (\<forall>i\<in>set js. P i)"
  shows "is \<noteq> [] \<and> (\<forall>i\<in>set is. P i)"
proof -
  note s = mergeArray_issues [OF m]
  from m have "isl (mergeArray rs)" by simp
  then obtain r where r0: "r \<in> set rs" "isl r"
    by (auto simp: mergeArray_isl)
  then obtain js where r: "r \<in> set rs" "r = Inl js"
    by (auto simp: isl_def)
  with each have "js \<noteq> []" by blast
  then obtain j where "j \<in> set js" by (cases js) auto
  with r s have "j \<in> set is" by force
  then have "is \<noteq> []" by auto
  moreover have "\<forall>i\<in>set is. P i"
    using s each by (auto split: sum.splits)
  ultimately show ?thesis by blast
qed

lemma map_sum_Inl: "map_sum id f x = Inl is \<Longrightarrow> x = Inl is"
  by (cases x) auto

lemma zparse_issue_path:
  "zparse s p v = Inl is \<Longrightarrow> is \<noteq> [] \<and> (\<forall>i\<in>set is. \<exists>c rest. i = Issue c (p @ rest))"
proof (induction s arbitrary: p v "is")
  case ZString
  then show ?case by (auto split: jsvalue.splits)
next
  case ZBoolean
  then show ?case by (auto split: jsvalue.splits)
next
  case (ZNumber lo hi)
  then show ?case by (auto simp: Let_def split: jsvalue.splits if_splits)
next
  case (ZEnum vals)
  then show ?case by (auto split: jsvalue.splits if_splits)
next
  case (ZArray s)
  show ?case
  proof (cases v)
    case (JArr xs)
    let ?F = "\<lambda>ix. zparse s (p @ [Index (fst ix)]) (snd ix)"
    from ZArray.prems JArr have m: "mergeArray (map ?F (enumerate 0 xs)) = Inl is"
      by (auto dest: map_sum_Inl)
    have "\<forall>r\<in>set (map ?F (enumerate 0 xs)). \<forall>js. r = Inl js \<longrightarrow>
            js \<noteq> [] \<and> (\<forall>i\<in>set js. \<exists>c rest. i = Issue c (p @ rest))"
    proof (intro ballI allI impI)
      fix r js assume "r \<in> set (map ?F (enumerate 0 xs))" "r = Inl js"
      then obtain ix where "?F ix = Inl js" by auto
      from ZArray.IH [OF this]
      show "js \<noteq> [] \<and> (\<forall>i\<in>set js. \<exists>c rest. i = Issue c (p @ rest))" by auto
    qed
    from mergeArray_Inl_all [OF m, of "\<lambda>i. \<exists>c rest. i = Issue c (p @ rest)", OF this]
    show ?thesis .
  qed (use ZArray.prems in auto)
next
  case (ZRecord s)
  show ?case
  proof (cases v)
    case (JObj fs)
    let ?F = "\<lambda>kx. (fst kx, True, zparse s (p @ [Key (fst kx)]) (snd kx))"
    from ZRecord.prems JObj have m: "mergeObject (map ?F (AList.clearjunk fs)) = Inl is"
      by (auto dest: map_sum_Inl)
    have "\<forall>r\<in>set (map ?F (AList.clearjunk fs)). \<forall>js. snd (snd r) = Inl js \<longrightarrow>
            js \<noteq> [] \<and> (\<forall>i\<in>set js. \<exists>c rest. i = Issue c (p @ rest))"
    proof (intro ballI allI impI)
      fix r js assume "r \<in> set (map ?F (AList.clearjunk fs))" "snd (snd r) = Inl js"
      then obtain kx where "zparse s (p @ [Key (fst kx)]) (snd kx) = Inl js" by auto
      from ZRecord.IH [OF this]
      show "js \<noteq> [] \<and> (\<forall>i\<in>set js. \<exists>c rest. i = Issue c (p @ rest))" by auto
    qed
    from mergeObject_Inl_all [OF m, of "\<lambda>i. \<exists>c rest. i = Issue c (p @ rest)", OF this]
    show ?thesis .
  qed (use ZRecord.prems in auto)
next
  case (ZObject shape)
  show ?case
  proof (cases v)
    case (JObj fs)
    let ?F = "\<lambda>ks. (fst ks, hasKey fs (fst ks),
                     zparse (snd ks) (p @ [Key (fst ks)]) (getField fs (fst ks)))"
    from ZObject.prems JObj have m: "mergeObject (map ?F shape) = Inl is"
      by (auto dest: map_sum_Inl)
    have "\<forall>r\<in>set (map ?F shape). \<forall>js. snd (snd r) = Inl js \<longrightarrow>
            js \<noteq> [] \<and> (\<forall>i\<in>set js. \<exists>c rest. i = Issue c (p @ rest))"
    proof (intro ballI allI impI)
      fix r js assume "r \<in> set (map ?F shape)" "snd (snd r) = Inl js"
      then obtain ks where ks: "ks \<in> set shape"
        and z: "zparse (snd ks) (p @ [Key (fst ks)]) (getField fs (fst ks)) = Inl js" by auto
      have "snd ks \<in> Basic_BNFs.snds ks" by (cases ks) simp
      from ZObject.IH [OF ks this z]
      show "js \<noteq> [] \<and> (\<forall>i\<in>set js. \<exists>c rest. i = Issue c (p @ rest))" by auto
    qed
    from mergeObject_Inl_all [OF m, of "\<lambda>i. \<exists>c rest. i = Issue c (p @ rest)", OF this]
    show ?thesis .
  qed (use ZObject.prems in auto)
next
  case (ZOptional s)
  then show ?case by (auto split: if_splits)
qed

text \<open>
  The issues of a rejected options object: each lies at a path that starts with a key of the
  shape, and that key is a field the object holds.
\<close>

lemma object_issue_fields:
  assumes z: "zparse (ZObject shape) [] (JObj fs) = Inl is"
    and opt: "\<forall>ks\<in>set shape. \<exists>s. snd ks = ZOptional s"
  shows "is \<noteq> [] \<and> (\<forall>i\<in>set is. \<exists>c k rest. i = Issue c (Key k # rest)
            \<and> k \<in> set (map fst shape) \<and> hasKey fs k)"
proof -
  let ?F = "\<lambda>ks. (fst ks, hasKey fs (fst ks),
                   zparse (snd ks) ([] @ [Key (fst ks)]) (getField fs (fst ks)))"
  let ?P = "\<lambda>i. \<exists>c k rest. i = Issue c (Key k # rest) \<and> k \<in> set (map fst shape) \<and> hasKey fs k"
  from z have m: "mergeObject (map ?F shape) = Inl is"
    by (auto dest: map_sum_Inl)
  have "\<forall>r\<in>set (map ?F shape). \<forall>js. snd (snd r) = Inl js \<longrightarrow> js \<noteq> [] \<and> (\<forall>i\<in>set js. ?P i)"
  proof (intro ballI allI impI)
    fix r js assume "r \<in> set (map ?F shape)" "snd (snd r) = Inl js"
    then obtain ks where ks: "ks \<in> set shape"
      and zk: "zparse (snd ks) ([] @ [Key (fst ks)]) (getField fs (fst ks)) = Inl js" by auto
    from opt ks obtain s where s: "snd ks = ZOptional s" by blast
    with zk have "getField fs (fst ks) \<noteq> JUndefined" by (auto split: if_splits)
    then have hk: "hasKey fs (fst ks)" by (auto simp: getField_def hasKey_def split: option.splits)
    from ks have km: "fst ks \<in> set (map fst shape)" by simp
    from zparse_issue_path [OF zk]
    have ne: "js \<noteq> []" and p: "\<forall>i\<in>set js. \<exists>c rest. i = Issue c (Key (fst ks) # rest)"
      by auto
    from p hk km have "\<forall>i\<in>set js. ?P i" by blast
    with ne show "js \<noteq> [] \<and> (\<forall>i\<in>set js. ?P i)" ..
  qed
  from mergeObject_Inl_all [OF m, of ?P, OF this] show ?thesis .
qed

lemma finallyClose_not_launched: "finallyClose E (False, r, w) = (r, w)"
  by (simp add: finallyClose_def)

text \<open>An occurrence of a pattern is found, also behind a prefix.\<close>

lemma indexOf_decomp:
  "indexOf s p = Some i \<Longrightarrow> s = take i s @ p @ drop (i + length p) s"
proof (induction s arbitrary: i)
  case Nil
  then show ?case by (auto split: if_splits)
next
  case (Cons c cs)
  show ?case
  proof (cases "take (length p) (c # cs) = p")
    case True
    with Cons.prems have i: "i = 0" by simp
    have "c # cs = take (length p) (c # cs) @ drop (length p) (c # cs)"
      by (simp only: append_take_drop_id)
    with True i show ?thesis by simp
  next
    case False
    with Cons.prems obtain j where j: "indexOf cs p = Some j" and i: "i = Suc j"
      by auto
    from Cons.IH [OF j] i show ?thesis by simp
  qed
qed

lemma includesStr_occurrence: "includesStr (pre @ p @ post) p"
proof (induction pre)
  case Nil
  show ?case
  proof (cases "p @ post")
    case Nil
    then show ?thesis by (simp add: includesStr_def)
  next
    case (Cons c cs)
    have "take (length p) (p @ post) = p" by simp
    with Cons show ?thesis by (simp add: includesStr_def)
  qed
next
  case (Cons c pre)
  then show ?case by (simp add: includesStr_def)
qed

lemma includesStr_append: "includesStr s p \<Longrightarrow> includesStr (t @ s) p"
proof -
  assume "includesStr s p"
  then obtain i where "indexOf s p = Some i" by (auto simp: includesStr_def)
  from indexOf_decomp [OF this]
  have "t @ s = (t @ take i s) @ p @ drop (i + length p) s" by simp
  then show ?thesis by (metis includesStr_occurrence)
qed

text \<open>Each issue of a rejected options object lies at a field whose value the schema rejects.\<close>

lemma object_issue_fields_invalid:
  assumes z: "zparse (ZObject shape) [] (JObj fs) = Inl is"
    and opt: "\<forall>ks\<in>set shape. \<exists>s. snd ks = ZOptional s"
  shows "\<forall>i\<in>set is. \<exists>c k rest s. i = Issue c (Key k # rest)
            \<and> (k, s) \<in> set shape \<and> hasKey fs k
            \<and> isl (zparse s [Key k] (getField fs k))"
proof -
  let ?F = "\<lambda>ks. (fst ks, hasKey fs (fst ks),
                   zparse (snd ks) ([] @ [Key (fst ks)]) (getField fs (fst ks)))"
  let ?P = "\<lambda>i. \<exists>c k rest s. i = Issue c (Key k # rest)
            \<and> (k, s) \<in> set shape \<and> hasKey fs k
            \<and> isl (zparse s [Key k] (getField fs k))"
  from z have m: "mergeObject (map ?F shape) = Inl is"
    by (auto dest: map_sum_Inl)
  have "\<forall>r\<in>set (map ?F shape). \<forall>js. snd (snd r) = Inl js \<longrightarrow> js \<noteq> [] \<and> (\<forall>i\<in>set js. ?P i)"
  proof (intro ballI allI impI)
    fix r js assume "r \<in> set (map ?F shape)" "snd (snd r) = Inl js"
    then obtain ks where ks: "ks \<in> set shape"
      and zk: "zparse (snd ks) ([] @ [Key (fst ks)]) (getField fs (fst ks)) = Inl js" by auto
    from opt ks obtain s where s: "snd ks = ZOptional s" by blast
    with zk have "getField fs (fst ks) \<noteq> JUndefined" by (auto split: if_splits)
    then have hk: "hasKey fs (fst ks)" by (auto simp: getField_def hasKey_def split: option.splits)
    from ks have km: "(fst ks, snd ks) \<in> set shape" by simp
    from zk have bad: "isl (zparse (snd ks) [Key (fst ks)] (getField fs (fst ks)))" by simp
    from zparse_issue_path [OF zk]
    have ne: "js \<noteq> []" and p: "\<forall>i\<in>set js. \<exists>c rest. i = Issue c (Key (fst ks) # rest)"
      by auto
    from p hk km bad have "\<forall>i\<in>set js. ?P i" by blast
    with ne show "js \<noteq> [] \<and> (\<forall>i\<in>set js. ?P i)" ..
  qed
  from mergeObject_Inl_all [OF m, of ?P, OF this] show ?thesis by blast
qed

lemma invalid_options_result:
  assumes "nonEmptyString html = Some h"
    and "safeParse HtmlToPdfOptionsSchema options = Inl issues"
  shows "convertHtmlToPdf E w html options
           = (failure (''Invalid options: '' @ zod_message E issues), w)"
  using assms by (simp add: convertHtmlToPdf_def tryHtmlToPdf_def finallyClose_not_launched)

text \<open>
  Claim C6. An HTML to PDF call with a non-empty HTML string whose options object fails schema
  validation returns \<^verbatim>\<open>success = false\<close> with the message \<^verbatim>\<open>Invalid options:\<close> followed by
  the validator's rendering of its issues, and the state is returned unchanged: no call reaches
  the engine and no instance is launched. There is at least one issue, and each issue lies at a
  path whose first key is a known option that the object holds and whose value the schema
  rejects. The rendering is the library's (the JSON text of the issues, each with its path); the
  hypothesis on it is that the text of these issues contains the first key of the path of each.
  Then the returned error message contains the key of every invalid field. (The payload check
  precedes validation, so validation runs only on a call with a non-empty HTML string.)
\<close>

theorem invalid_options_rejected:
  assumes "nonEmptyString html = Some h"
    and "safeParse HtmlToPdfOptionsSchema (JObj fs) = Inl issues"
    and "list_all (\<lambda>i. includesStr (zod_message E issues) (issueField i)) issues"
  shows "convertHtmlToPdf E w html (JObj fs)
           = (failure (''Invalid options: '' @ zod_message E issues), w)
     \<and> issues \<noteq> []
     \<and> (\<forall>i\<in>set issues. \<exists>c k rest s. i = Issue c (Key k # rest)
            \<and> k \<in> set (shapeKeys HtmlToPdfOptionsSchema) \<and> (k, s) \<in> set pdfFields
            \<and> hasKey fs k
            \<and> isl (zparse s [Key k] (getField fs k))
            \<and> (\<exists>msg. error (fst (convertHtmlToPdf E w html (JObj fs))) = Some msg
                       \<and> includesStr msg k))"
proof -
  have r: "convertHtmlToPdf E w html (JObj fs)
           = (failure (''Invalid options: '' @ zod_message E issues), w)"
    using assms(1,2) by (rule invalid_options_result)
  from assms(2) have z: "zparse (ZObject pdfFields) [] (JObj fs) = Inl issues"
    by (simp only: HtmlToPdfOptionsSchema_def safeParse_optional_object)
  have opt: "\<forall>ks\<in>set pdfFields. \<exists>s. snd ks = ZOptional s"
    by (simp add: pdfFields_def)
  from object_issue_fields [OF z opt] have ne: "issues \<noteq> []" by blast
  have "\<forall>i\<in>set issues. \<exists>c k rest s. i = Issue c (Key k # rest)
            \<and> k \<in> set (shapeKeys HtmlToPdfOptionsSchema) \<and> (k, s) \<in> set pdfFields
            \<and> hasKey fs k
            \<and> isl (zparse s [Key k] (getField fs k))
            \<and> (\<exists>msg. error (fst (convertHtmlToPdf E w html (JObj fs))) = Some msg
                       \<and> includesStr msg k)"
  proof
    fix i assume i: "i \<in> set issues"
    with object_issue_fields_invalid [OF z opt] obtain c k rest s where
      f: "i = Issue c (Key k # rest)" "(k, s) \<in> set pdfFields" "hasKey fs k"
         "isl (zparse s [Key k] (getField fs k))" by blast
    from f(2) have known: "k \<in> set (shapeKeys HtmlToPdfOptionsSchema)"
      by (force simp: HtmlToPdfOptionsSchema_def)
    from assms(3) i have "includesStr (zod_message E issues) (issueField i)"
      by (simp add: list_all_iff)
    with f(1) have "includesStr (zod_message E issues) k" by simp
    then have "includesStr (''Invalid options: '' @ zod_message E issues) k"
      by (rule includesStr_append)
    then have "\<exists>msg. error (fst (convertHtmlToPdf E w html (JObj fs))) = Some msg
                       \<and> includesStr msg k"
      by (simp add: r failure_def)
    with f known show "\<exists>c k rest s. i = Issue c (Key k # rest)
            \<and> k \<in> set (shapeKeys HtmlToPdfOptionsSchema) \<and> (k, s) \<in> set pdfFields
            \<and> hasKey fs k
            \<and> isl (zparse s [Key k] (getField fs k))
            \<and> (\<exists>msg. error (fst (convertHtmlToPdf E w html (JObj fs))) = Some msg
                       \<and> includesStr msg k)"
      by blast
  qed
  with r ne show ?thesis by blast
qed

theorem invalid_options_rejected_witness:
  "nonEmptyString (JStr ''<h1>X</h1>'') = Some ''<h1>X</h1>''
   \<and> safeParse HtmlToPdfOptionsSchema (JObj [(''format'', JStr ''A6'')])
       = Inl [Issue InvalidEnumValue [Key ''format'']]
   \<and> list_all (\<lambda>i. includesStr (zod_message sampleEnv [Issue InvalidEnumValue [Key ''format'']])
                         (issueField i))
        [Issue InvalidEnumValue [Key ''format'']]
   \<and> convertHtmlToPdf sampleEnv world0 (JStr ''<h1>X</h1>'') (JObj [(''format'', JStr ''A6'')])
       = (failure ''Invalid options: format'', world0)
   \<and> includesStr ''Invalid options: format'' ''format''"
proof -
  have a: "nonEmptyString (JStr ''<h1>X</h1>'') = Some ''<h1>X</h1>''"
    by (simp add: nonEmptyString_def)
  have b: "safeParse HtmlToPdfOptionsSchema (JObj [(''format'', JStr ''A6'')])
       = Inl [Issue InvalidEnumValue [Key ''format'']]"
    by (simp add: safeParse_def HtmlToPdfOptionsSchema_def pdfFields_def hasKey_def getField_def)
  have c: "list_all (\<lambda>i. includesStr (zod_message sampleEnv [Issue InvalidEnumValue [Key ''format'']])
                         (issueField i))
        [Issue InvalidEnumValue [Key ''format'']]"
    by (simp add: sampleEnv_def includesStr_def)
  have m: "zod_message sampleEnv [Issue InvalidEnumValue [Key ''format'']] = ''format''"
    by (simp add: sampleEnv_def)
  note t = invalid_options_rejected [OF a b c, of world0]
  from t have r: "convertHtmlToPdf sampleEnv world0 (JStr ''<h1>X</h1>'')
        (JObj [(''format'', JStr ''A6'')])
       = (failure ''Invalid options: format'', world0)"
    by (simp add: m)
  from t r have "includesStr ''Invalid options: format'' ''format''"
    by (auto simp: failure_def)
  with a b c r show ?thesis by (intro conjI)
qed

section \<open>The configuration of the Markdown parser\<close>

lemma optional_boolean:
  "zparse (ZOptional ZBoolean) p v = Inr v' \<Longrightarrow> v' = v \<and> (v = JUndefined \<or> (\<exists>b. v = JBool b))"
  by (auto split: if_splits jsvalue.splits)

lemma safeParse_optional_cases:
  assumes "safeParse (ZOptional (ZObject shape)) options = Inr d"
  obtains "options = JUndefined" "d = JUndefined"
  | fs out where "options = JObj fs" "d = JObj out"
      "zparse (ZObject shape) [] (JObj fs) = Inr (JObj out)"
proof (cases options)
  case JUndefined
  with assms that(1) show ?thesis by (simp add: safeParse_def)
next
  case (JObj fs)
  with assms have z: "zparse (ZObject shape) [] (JObj fs) = Inr d"
    by (simp only: safeParse_optional_object)
  from zparse_object_keys [OF this] obtain out where "d = JObj out" by blast
  with z JObj that(2) show ?thesis by blast
qed (use assms in \<open>auto simp: safeParse_def\<close>)

lemma validated_boolean_field:
  assumes z: "zparse (ZObject shape) [] (JObj fs) = Inr (JObj out)"
    and dist: "distinct (map fst shape)"
    and mem: "(k, ZOptional ZBoolean) \<in> set shape"
  shows "getField out k = getField fs k"
    and "getField fs k = JUndefined \<or> (\<exists>b. getField fs k = JBool b)"
  using optional_boolean [OF zparse_object_field(1) [OF z dist mem]] by auto

lemma markdown_flags:
  assumes "safeParse MarkdownToHtmlOptionsSchema options = Inr d"
    and "k \<in> {''breaks'', ''gfm'', ''pedantic'', ''sanitize''}"
  shows "getProp (dataOrEmpty d) k = getProp options k"
    and "getProp options k = JUndefined \<or> (\<exists>b. getProp options k = JBool b)"
proof -
  from assms(1) have sp: "safeParse (ZOptional (ZObject markdownFields)) options = Inr d"
    by (simp only: MarkdownToHtmlOptionsSchema_def)
  have dist: "distinct (map fst markdownFields)" by (simp add: markdownFields_def)
  have mem: "(k, ZOptional ZBoolean) \<in> set markdownFields"
    using assms(2) by (auto simp: markdownFields_def)
  from sp show "getProp (dataOrEmpty d) k = getProp options k"
  proof (cases rule: safeParse_optional_cases)
    case 1
    then show ?thesis by (simp add: dataOrEmpty_def getField_def)
  next
    case (2 fs out)
    with validated_boolean_field(1) [OF 2(3) dist mem] show ?thesis
      by (simp add: dataOrEmpty_def)
  qed
  from sp show "getProp options k = JUndefined \<or> (\<exists>b. getProp options k = JBool b)"
  proof (cases rule: safeParse_optional_cases)
    case 1
    then show ?thesis by simp
  next
    case (2 fs out)
    with validated_boolean_field(2) [OF 2(3) dist mem] show ?thesis by simp
  qed
qed

lemma truthy_flag:
  "v = JUndefined \<or> (\<exists>b. v = JBool b) \<Longrightarrow> truthy v = (v = JBool True)"
  by auto

text \<open>
  Claim C8. On a Markdown to HTML call with a non-empty Markdown string and options that
  validate, the parser's options are set from the options given: \<^verbatim>\<open>breaks\<close> and \<^verbatim>\<open>pedantic\<close> are on
  exactly when the caller supplied \<^verbatim>\<open>true\<close>, and \<^verbatim>\<open>gfm\<close> is on unless the caller supplied
  \<^verbatim>\<open>false\<close>. So with all three absent (or with no options object at all) GitHub-flavoured mode is
  enabled and line-break conversion and pedantic mode are disabled, and a supplied boolean
  overrides its default. The parser runs under this configuration: its failure there is the
  failure of the call.
\<close>

theorem marked_configuration:
  assumes "nonEmptyString markdown = Some md"
    and "safeParse MarkdownToHtmlOptionsSchema options = Inr d"
  shows "markedOptions (snd (convertMarkdownToHtml E w markdown options))
         = \<lparr>breaks = (getProp options ''breaks'' = JBool True),
            gfm = (getProp options ''gfm'' \<noteq> JBool False),
            pedantic = (getProp options ''pedantic'' = JBool True)\<rparr>
     \<and> (\<forall>ex. marked_parse E
                \<lparr>breaks = (getProp options ''breaks'' = JBool True),
                 gfm = (getProp options ''gfm'' \<noteq> JBool False),
                 pedantic = (getProp options ''pedantic'' = JBool True)\<rparr> md = Inl ex
           \<longrightarrow> fst (convertMarkdownToHtml E w markdown options)
                 = failure (''Markdown conversion failed: '' @ errorMessage ex))"
proof -
  note f = markdown_flags [OF assms(2)]
  have cfg: "markedOptions (markedSetOptions (dataOrEmpty d) w)
         = \<lparr>breaks = (getProp options ''breaks'' = JBool True),
            gfm = (getProp options ''gfm'' \<noteq> JBool False),
            pedantic = (getProp options ''pedantic'' = JBool True)\<rparr>"
    using f(2) [of "''breaks''"] f(2) [of "''pedantic''"]
    by (simp add: markedSetOptions_def f(1) truthy_flag)
  show ?thesis
    using assms cfg
    by (auto simp: convertMarkdownToHtml_def Let_def split: sum.splits)
qed

theorem marked_configuration_witness:
  "nonEmptyString (JStr ''# Hi'') = Some ''# Hi''
   \<and> safeParse MarkdownToHtmlOptionsSchema (JObj [(''sanitize'', JBool False)])
       = Inr (JObj [(''sanitize'', JBool False)])
   \<and> markedOptions (snd (convertMarkdownToHtml sampleEnv world0 (JStr ''# Hi'')
                           (JObj [(''sanitize'', JBool False)])))
       = \<lparr>breaks = False, gfm = True, pedantic = False\<rparr>
   \<and> markedOptions world0 = \<lparr>breaks = False, gfm = False, pedantic = True\<rparr>"
proof -
  have a: "nonEmptyString (JStr ''# Hi'') = Some ''# Hi''"
    by (simp add: nonEmptyString_def)
  have b: "safeParse MarkdownToHtmlOptionsSchema (JObj [(''sanitize'', JBool False)])
       = Inr (JObj [(''sanitize'', JBool False)])"
    by (simp add: safeParse_def MarkdownToHtmlOptionsSchema_def markdownFields_def
        sanitizerOptionsSchema_def hasKey_def getField_def)
  from marked_configuration [OF a b, of sampleEnv world0] a b
  show ?thesis by (simp add: getField_def world0_def)
qed

section \<open>The result envelope\<close>

lemma envelope_failure: "envelope (failure msg)"
  by (simp add: envelope_def failure_def)

lemma envelope_succeeded: "envelope (succeeded d m)"
  by (simp add: envelope_def succeeded_def)

lemma fst_finallyClose: "fst (finallyClose E t) = fst (snd t)"
  by (cases t) (simp add: finallyClose_def)

lemma envelope_convertMarkdownToHtml: "envelope (fst (convertMarkdownToHtml E w markdown options))"
  by (simp add: convertMarkdownToHtml_def Let_def envelope_failure envelope_succeeded
      split: option.splits sum.splits)

lemma envelope_tryHtmlToPdf: "envelope (fst (snd (tryHtmlToPdf E w h options)))"
  by (simp add: tryHtmlToPdf_def Let_def envelope_failure envelope_succeeded
      split: sum.splits prod.splits)

lemma envelope_tryUrlToPdf: "envelope (fst (snd (tryUrlToPdf E w u options)))"
  by (simp add: tryUrlToPdf_def Let_def envelope_failure envelope_succeeded
      split: sum.splits prod.splits)

lemma envelope_convertHtmlToPdf: "envelope (fst (convertHtmlToPdf E w html options))"
  by (simp add: convertHtmlToPdf_def fst_finallyClose envelope_tryHtmlToPdf envelope_failure
      split: option.splits)

lemma envelope_convertUrlToPdf: "envelope (fst (convertUrlToPdf E w url options))"
  by (simp add: convertUrlToPdf_def fst_finallyClose envelope_tryUrlToPdf envelope_failure
      split: option.splits)

lemma envelope_convertHtmlToDocx: "envelope (fst (convertHtmlToDocx E w html options))"
  by (simp add: convertHtmlToDocx_def Let_def envelope_failure envelope_succeeded
      split: option.splits sum.splits docx_result.splits)

lemma envelope_convertMarkdownToDocx: "envelope (fst (convertMarkdownToDocx E w markdown options))"
  by (simp add: convertMarkdownToDocx_def Let_def envelope_failure envelope_succeeded
      split: option.splits sum.splits prod.splits)

lemma envelope_convertMarkdownToPdf: "envelope (fst (convertMarkdownToPdf E w markdown options))"
  by (simp add: convertMarkdownToPdf_def Let_def envelope_failure envelope_succeeded
      split: option.splits sum.splits prod.splits)

lemma envelope_metadata_update: "envelope (r\<lparr>metadata := m\<rparr>) = envelope r"
  by (simp add: envelope_def)

lemma envelope_convertMarkdownToPdf_pair:
  "convertMarkdownToPdf E w markdown options = (r, w') \<Longrightarrow> envelope r"
  using envelope_convertMarkdownToPdf [of E w markdown options] by simp

lemma envelope_convertMultipleMarkdownToPdf:
  "envelope (fst (convertMultipleMarkdownToPdf E w sections options))"
  by (auto simp: convertMultipleMarkdownToPdf_def envelope_failure envelope_metadata_update
      split: sum.splits prod.splits option.splits
      intro: envelope_convertMarkdownToPdf_pair)

lemma envelope_file_variants:
  "envelope (fst (convertMarkdownFileToHtml E w filePath options))"
  "envelope (fst (convertHtmlFileToPdf E w filePath options))"
  "envelope (fst (convertHtmlFileToDocx E w filePath options))"
  "envelope (fst (convertMarkdownFileToDocx E w filePath options))"
  "envelope (fst (convertMarkdownFileToPdf E w filePath options))"
  by (simp_all add: convertMarkdownFileToHtml_def convertHtmlFileToPdf_def
      convertHtmlFileToDocx_def convertMarkdownFileToDocx_def convertMarkdownFileToPdf_def
      envelope_failure envelope_convertMarkdownToHtml envelope_convertHtmlToPdf
      envelope_convertHtmlToDocx envelope_convertMarkdownToDocx envelope_convertMarkdownToPdf
      split: sum.splits)

lemma envelope_convertUrlToDocx: "envelope (fst (convertUrlToDocx E w url options))"
  by (simp add: convertUrlToDocx_def envelope_failure envelope_convertHtmlToDocx
      split: option.splits sum.splits)

text \<open>
  Claim C9. Every result returned by a converter operation (the six conversions, their file
  variants, URL to DOCX and the batch variant) satisfies the envelope: when \<open>success\<close> is true
  the data is present and the error is absent, and when \<open>success\<close> is false the error is present
  and the data is absent. This holds for every payload, every options value and every
  behaviour of the collaborators.
\<close>

theorem result_envelope:
  "envelope (fst (convertMarkdownToHtml E w payload options))
   \<and> envelope (fst (convertMarkdownFileToHtml E w payload options))
   \<and> envelope (fst (convertHtmlToPdf E w payload options))
   \<and> envelope (fst (convertHtmlFileToPdf E w payload options))
   \<and> envelope (fst (convertUrlToPdf E w payload options))
   \<and> envelope (fst (convertHtmlToDocx E w payload options))
   \<and> envelope (fst (convertHtmlFileToDocx E w payload options))
   \<and> envelope (fst (convertUrlToDocx E w payload options))
   \<and> envelope (fst (convertMarkdownToDocx E w payload options))
   \<and> envelope (fst (convertMarkdownFileToDocx E w payload options))
   \<and> envelope (fst (convertMarkdownToPdf E w payload options))
   \<and> envelope (fst (convertMarkdownFileToPdf E w payload options))
   \<and> envelope (fst (convertMultipleMarkdownToPdf E w sections options))"
  by (intro conjI envelope_convertMarkdownToHtml envelope_file_variants envelope_convertHtmlToPdf
      envelope_convertUrlToPdf envelope_convertHtmlToDocx envelope_convertUrlToDocx
      envelope_convertMarkdownToDocx envelope_convertMarkdownToPdf
      envelope_convertMultipleMarkdownToPdf)

theorem result_envelope_witness:
  "success (fst (convertMarkdownToHtml sampleEnv world0 (JStr ''# Hi'') JUndefined))
   \<and> data (fst (convertMarkdownToHtml sampleEnv world0 (JStr ''# Hi'') JUndefined)) \<noteq> None
   \<and> error (fst (convertMarkdownToHtml sampleEnv world0 (JStr ''# Hi'') JUndefined)) = None
   \<and> \<not> success (fst (convertHtmlToPdf sampleEnv world0 (JStr []) JUndefined))
   \<and> error (fst (convertHtmlToPdf sampleEnv world0 (JStr []) JUndefined)) \<noteq> None
   \<and> data (fst (convertHtmlToPdf sampleEnv world0 (JStr []) JUndefined)) = None"
proof -
  have s: "success (fst (convertMarkdownToHtml sampleEnv world0 (JStr ''# Hi'') JUndefined))"
    by (simp add: convertMarkdownToHtml_def nonEmptyString_def safeParse_def
        MarkdownToHtmlOptionsSchema_def dataOrEmpty_def sampleEnv_def succeeded_def Let_def)
  have f: "\<not> success (fst (convertHtmlToPdf sampleEnv world0 (JStr []) JUndefined))"
    by (simp add: convertHtmlToPdf_def nonEmptyString_def failure_def)
  from result_envelope [of sampleEnv world0 "JStr ''# Hi''" JUndefined]
  have e1: "envelope (fst (convertMarkdownToHtml sampleEnv world0 (JStr ''# Hi'') JUndefined))"
    by blast
  from result_envelope [of sampleEnv world0 "JStr []" JUndefined]
  have e2: "envelope (fst (convertHtmlToPdf sampleEnv world0 (JStr []) JUndefined))"
    by blast
  from s f e1 e2 show ?thesis by (simp add: envelope_def)
qed

section \<open>The metadata of the Markdown to DOCX pipeline\<close>

lemma nonEmptyString_Some: "nonEmptyString v = Some s \<longleftrightarrow> v = JStr s \<and> s \<noteq> []"
  by (auto simp: nonEmptyString_def split: jsvalue.splits)

lemma success_failure: "\<not> success (failure msg)"
  by (simp add: failure_def)

lemma html_stage_success:
  assumes "convertMarkdownToHtml E w (JStr md) opts = (hr, w1)" and "success hr"
  shows "\<exists>html s. data hr = Some html
           \<and> metadata hr = Some \<lparr>originalLength = length md, htmlLength = length html,
                                 sanitized = s\<rparr>"
  using assms
  by (auto simp: convertMarkdownToHtml_def Let_def nonEmptyString_def failure_def succeeded_def
      split: option.splits sum.splits if_splits)

text \<open>
  Claim C3. Every successful Markdown to DOCX conversion reports \<open>originalLength\<close> equal to
  the length of the input Markdown string and \<open>htmlLength\<close> equal to the length of the HTML
  that the Markdown to HTML stage returned (before any wrapping as a full document).
\<close>

theorem docx_metadata_lengths:
  assumes run: "convertMarkdownToDocx E w markdown options = (r, w')" and ok: "success r"
  shows "\<exists>md d htmlResult w1 html m.
           markdown = JStr md
         \<and> safeParse MarkdownToDocxOptionsSchema options = Inr d
         \<and> convertMarkdownToHtml E w (JStr md) (docxMarkdownOptions (dataOrEmpty d))
             = (htmlResult, w1)
         \<and> data htmlResult = Some html
         \<and> metadata r = Some m
         \<and> originalLength m = length md
         \<and> htmlLength m = length html"
proof -
  from run ok obtain md where md: "nonEmptyString markdown = Some md"
    by (cases "nonEmptyString markdown") (auto simp: convertMarkdownToDocx_def success_failure)
  then have mk: "markdown = JStr md" and ne: "md \<noteq> []" by (simp_all add: nonEmptyString_Some)
  from run ok md obtain d where d: "safeParse MarkdownToDocxOptionsSchema options = Inr d"
    by (cases "safeParse MarkdownToDocxOptionsSchema options")
       (auto simp: convertMarkdownToDocx_def success_failure)
  obtain hr w1 where
    hs: "convertMarkdownToHtml E w (JStr md) (docxMarkdownOptions (dataOrEmpty d)) = (hr, w1)"
    by (cases "convertMarkdownToHtml E w (JStr md) (docxMarkdownOptions (dataOrEmpty d))")
  from run ok md d hs obtain html where sd: "stageData htmlStageFailed hr = Some html"
    by (cases "stageData htmlStageFailed hr")
       (auto simp: convertMarkdownToDocx_def Let_def success_failure)
  then have nf: "\<not> htmlStageFailed hr" and dh: "data hr = Some html"
    by (auto simp: stageData_def split: if_splits)
  then have sh: "success hr" and hne: "html \<noteq> []" by (auto simp: htmlStageFailed_def)
  from html_stage_success [OF hs sh] dh obtain s where
    mh: "metadata hr = Some \<lparr>originalLength = length md, htmlLength = length html,
                              sanitized = s\<rparr>"
    by auto
  obtain dr w2 where
    ds: "convertHtmlToDocx E w1 (JStr (docxPipelineHtml (dataOrEmpty d) html))
           (docxStageOptions (dataOrEmpty d)) = (dr, w2)"
    by (cases "convertHtmlToDocx E w1 (JStr (docxPipelineHtml (dataOrEmpty d) html))
           (docxStageOptions (dataOrEmpty d))")
  from run ok md d hs sd ds obtain buf where sb: "stageData binaryStageFailed dr = Some buf"
    by (cases "stageData binaryStageFailed dr")
       (auto simp: convertMarkdownToDocx_def Let_def success_failure)
  from run md d hs sd ds sb mh ne hne
  have "metadata r = Some \<lparr>originalLength = length md, htmlLength = length html,
                            sanitized = s, docxSize = length buf\<rparr>"
    by (auto simp: convertMarkdownToDocx_def Let_def succeeded_def)
  with mk d hs dh show ?thesis by auto
qed

theorem docx_metadata_lengths_witness:
  "success (fst (convertMarkdownToDocx sampleEnv world0 (JStr ''# Hi'')
                   (JObj [(''fullDocument'', JBool False)])))
   \<and> map_option originalLength
        (metadata (fst (convertMarkdownToDocx sampleEnv world0 (JStr ''# Hi'')
                          (JObj [(''fullDocument'', JBool False)])))) = Some (length ''# Hi'')
   \<and> map_option htmlLength
        (metadata (fst (convertMarkdownToDocx sampleEnv world0 (JStr ''# Hi'')
                          (JObj [(''fullDocument'', JBool False)]))))
       = Some (length ''<p># Hi</p>'')"
proof -
  let ?opts = "JObj [(''fullDocument'', JBool False)]"
  let ?run = "convertMarkdownToDocx sampleEnv world0 (JStr ''# Hi'') ?opts"
  have v: "safeParse MarkdownToDocxOptionsSchema ?opts = Inr ?opts"
    by code_simp
  have h: "data (fst (convertMarkdownToHtml sampleEnv world0 (JStr ''# Hi'')
                        (docxMarkdownOptions (dataOrEmpty ?opts))))
           = Some ''<p># Hi</p>''"
    by code_simp
  have s: "success (fst ?run)"
    by code_simp
  obtain r w' where run: "?run = (r, w')" by (cases ?run)
  with s have "success r" by simp
  from docx_metadata_lengths [OF run this] obtain md d htmlResult w1 html m where
    f: "JStr ''# Hi'' = JStr md"
      "safeParse MarkdownToDocxOptionsSchema ?opts = Inr d"
      "convertMarkdownToHtml sampleEnv world0 (JStr md) (docxMarkdownOptions (dataOrEmpty d))
         = (htmlResult, w1)"
      "data htmlResult = Some html" "metadata r = Some m"
      "originalLength m = length md" "htmlLength m = length html"
    by blast
  from f(1) have md: "md = ''# Hi''" by simp
  from f(2) v have d: "d = ?opts" by simp
  from f(3) md d have "htmlResult = fst (convertMarkdownToHtml sampleEnv world0 (JStr ''# Hi'')
                        (docxMarkdownOptions (dataOrEmpty ?opts)))" by simp
  with f(4) h have html: "html = ''<p># Hi</p>''" by simp
  from s run f(5,6,7) md html show ?thesis by simp
qed

section \<open>Teardown of the browser instance\<close>

lemma tryHtmlToPdf_launched:
  assumes "safeParse HtmlToPdfOptionsSchema options = Inr d" and "launch E = None"
  shows "fst (tryHtmlToPdf E w h options)
     \<and> openBrowsers (snd (snd (tryHtmlToPdf E w h options))) = Suc (openBrowsers w)
     \<and> (\<exists>mid. calls (snd (snd (tryHtmlToPdf E w h options))) = calls w @ Launch # mid
               \<and> Close \<notin> set mid)"
  using assms
  by (cases "newPage E"; cases "setContent E h";
      cases "pdf E (Content h) (JObj (spread PDF_DEFAULT_OPTIONS d))")
     (simp_all add: tryHtmlToPdf_def puppeteer_launch_def browser_newPage_def page_setContent_def
        page_pdf_def logCall_def Let_def)

lemma tryUrlToPdf_launched:
  assumes "safeParse HtmlToPdfOptionsSchema options = Inr d" and "launch E = None"
  shows "fst (tryUrlToPdf E w u options)
     \<and> openBrowsers (snd (snd (tryUrlToPdf E w u options))) = Suc (openBrowsers w)
     \<and> (\<exists>mid. calls (snd (snd (tryUrlToPdf E w u options))) = calls w @ Launch # mid
               \<and> Close \<notin> set mid)"
  using assms
  by (cases "newPage E"; cases "goto E u";
      cases "pdf E (Url u) (JObj (spread PDF_DEFAULT_OPTIONS d))")
     (simp_all add: tryUrlToPdf_def puppeteer_launch_def browser_newPage_def page_goto_def
        page_pdf_def logCall_def Let_def)

text \<open>The calls with which the \<^verbatim>\<open>finally\<close> block ends, and the instances it leaves open.\<close>

lemma finallyClose_launched:
  assumes "fst t"
  shows "calls (snd (finallyClose E t))
         = calls (snd (snd t))
           @ (if close E = None then [Close]
              else [Close, ConsoleError ''Failed to close browser:''])"
    and "openBrowsers (snd (finallyClose E t))
         = (if close E = None then openBrowsers (snd (snd t)) - 1
            else openBrowsers (snd (snd t)))"
  using assms
  by (cases t; auto simp: finallyClose_def browser_close_def logCall_def)+

lemma closed_after_try:
  assumes t: "fst t" and o: "openBrowsers (snd (snd t)) = Suc n"
    and m: "calls (snd (snd t)) = cs @ Launch # mid" and c: "Close \<notin> set mid"
  shows "(\<exists>mid. Close \<notin> set mid
            \<and> calls (snd (finallyClose E t))
                = cs @ Launch # mid
                  @ (if close E = None then [Close]
                     else [Close, ConsoleError ''Failed to close browser:'']))
     \<and> openBrowsers (snd (finallyClose E t)) = (if close E = None then n else Suc n)"
proof (rule conjI)
  have "calls (snd (finallyClose E t))
                = cs @ Launch # mid
                  @ (if close E = None then [Close]
                     else [Close, ConsoleError ''Failed to close browser:''])"
    unfolding finallyClose_launched(1) [OF t] m by simp
  with c show "\<exists>mid. Close \<notin> set mid
            \<and> calls (snd (finallyClose E t))
                = cs @ Launch # mid
                  @ (if close E = None then [Close]
                     else [Close, ConsoleError ''Failed to close browser:''])"
    by (intro exI [of _ mid] conjI)
  show "openBrowsers (snd (finallyClose E t)) = (if close E = None then n else Suc n)"
    unfolding finallyClose_launched(2) [OF t] o by simp
qed

text \<open>
  Claim C4, as amended. In every HTML to PDF or URL to PDF call that launches a browser
  instance, \<^verbatim>\<open>browser.close()\<close> is called on it exactly once, as the last call on the engine, on
  every exit path: success, failure to open a page, failure to load the content or to
  navigate, and failure to render. When that call returns, the call leaves no more instances
  open than it found. When \<^verbatim>\<open>browser.close()\<close> itself throws, the exception is logged and
  swallowed, and the instance launched by the call is still open on return.
\<close>

theorem browser_closed_on_every_path:
  assumes "nonEmptyString payload = Some s"
    and "safeParse HtmlToPdfOptionsSchema options = Inr d"
    and "launch E = None"
  shows "(\<exists>mid. Close \<notin> set mid
            \<and> calls (snd (convertHtmlToPdf E w payload options))
                = calls w @ Launch # mid
                  @ (if close E = None then [Close]
                     else [Close, ConsoleError ''Failed to close browser:'']))
     \<and> openBrowsers (snd (convertHtmlToPdf E w payload options))
         = (if close E = None then openBrowsers w else Suc (openBrowsers w))
     \<and> (\<exists>mid. Close \<notin> set mid
            \<and> calls (snd (convertUrlToPdf E w payload options))
                = calls w @ Launch # mid
                  @ (if close E = None then [Close]
                     else [Close, ConsoleError ''Failed to close browser:'']))
     \<and> openBrowsers (snd (convertUrlToPdf E w payload options))
         = (if close E = None then openBrowsers w else Suc (openBrowsers w))"
proof -
  have h: "convertHtmlToPdf E w payload options = finallyClose E (tryHtmlToPdf E w s options)"
    by (simp add: convertHtmlToPdf_def assms(1))
  have u: "convertUrlToPdf E w payload options = finallyClose E (tryUrlToPdf E w s options)"
    by (simp add: convertUrlToPdf_def assms(1))
  from tryHtmlToPdf_launched [OF assms(2,3), of w s] obtain mid where
    "fst (tryHtmlToPdf E w s options)"
    "openBrowsers (snd (snd (tryHtmlToPdf E w s options))) = Suc (openBrowsers w)"
    "calls (snd (snd (tryHtmlToPdf E w s options))) = calls w @ Launch # mid"
    "Close \<notin> set mid"
    by (elim conjE exE)
  note a = closed_after_try [OF this, of E]
  from tryUrlToPdf_launched [OF assms(2,3), of w s] obtain mid' where
    "fst (tryUrlToPdf E w s options)"
    "openBrowsers (snd (snd (tryUrlToPdf E w s options))) = Suc (openBrowsers w)"
    "calls (snd (snd (tryUrlToPdf E w s options))) = calls w @ Launch # mid'"
    "Close \<notin> set mid'"
    by (elim conjE exE)
  note b = closed_after_try [OF this, of E]
  from a b show ?thesis unfolding h u by (intro conjI) (elim conjE, assumption)+
qed


theorem browser_closed_on_every_path_witness:
  "nonEmptyString (JStr ''<h1>X</h1>'') = Some ''<h1>X</h1>''
   \<and> safeParse HtmlToPdfOptionsSchema JUndefined = Inr JUndefined
   \<and> launch (sampleEnv\<lparr>setContent := (\<lambda>html. Some (ErrorObj ''Navigation timeout''))\<rparr>) = None
   \<and> \<not> success (fst (convertHtmlToPdf
                         (sampleEnv\<lparr>setContent := (\<lambda>html. Some (ErrorObj ''Navigation timeout''))\<rparr>)
                         world0 (JStr ''<h1>X</h1>'') JUndefined))
   \<and> calls (snd (convertHtmlToPdf
                    (sampleEnv\<lparr>setContent := (\<lambda>html. Some (ErrorObj ''Navigation timeout''))\<rparr>)
                    world0 (JStr ''<h1>X</h1>'') JUndefined))
       = [Launch, NewPage, SetContent ''<h1>X</h1>'', Close]
   \<and> openBrowsers (snd (convertHtmlToPdf
                    (sampleEnv\<lparr>setContent := (\<lambda>html. Some (ErrorObj ''Navigation timeout''))\<rparr>)
                    world0 (JStr ''<h1>X</h1>'') JUndefined)) = openBrowsers world0"
proof -
  let ?E = "sampleEnv\<lparr>setContent := (\<lambda>html. Some (ErrorObj ''Navigation timeout''))\<rparr>"
  have a: "nonEmptyString (JStr ''<h1>X</h1>'') = Some ''<h1>X</h1>''"
    by (simp add: nonEmptyString_def)
  have b: "safeParse HtmlToPdfOptionsSchema JUndefined = Inr JUndefined"
    by (simp add: safeParse_def HtmlToPdfOptionsSchema_def)
  have c: "launch ?E = None" by (simp add: sampleEnv_def)
  have d: "close ?E = None" by (simp add: sampleEnv_def)
  have e: "\<not> success (fst (convertHtmlToPdf ?E world0 (JStr ''<h1>X</h1>'') JUndefined))"
    by (simp add: convertHtmlToPdf_def nonEmptyString_def tryHtmlToPdf_def safeParse_def
        HtmlToPdfOptionsSchema_def puppeteer_launch_def browser_newPage_def page_setContent_def
        sampleEnv_def finallyClose_def failure_def Let_def)
  have f: "calls (snd (convertHtmlToPdf ?E world0 (JStr ''<h1>X</h1>'') JUndefined))
       = [Launch, NewPage, SetContent ''<h1>X</h1>'', Close]"
    by (simp add: convertHtmlToPdf_def nonEmptyString_def tryHtmlToPdf_def safeParse_def
        HtmlToPdfOptionsSchema_def puppeteer_launch_def browser_newPage_def page_setContent_def
        sampleEnv_def finallyClose_def browser_close_def logCall_def world0_def Let_def)
  from browser_closed_on_every_path [OF a b c, of world0] a b c d e f
  show ?thesis by simp
qed

text \<open>
  Claim C4 as first stated (no call returns with the launched instance still open) fails on
  one exit path: everything succeeds, and \<^verbatim>\<open>browser.close()\<close> itself throws. The exception is
  logged and swallowed, and the call returns its result with the instance still open.
\<close>

theorem browser_left_open_counterexample:
  "launch (sampleEnv\<lparr>close := Some (ErrorObj ''Protocol error'')\<rparr>) = None
   \<and> success (fst (convertHtmlToPdf (sampleEnv\<lparr>close := Some (ErrorObj ''Protocol error'')\<rparr>)
                      world0 (JStr ''<h1>X</h1>'') JUndefined))
   \<and> openBrowsers world0 = 0
   \<and> openBrowsers (snd (convertHtmlToPdf (sampleEnv\<lparr>close := Some (ErrorObj ''Protocol error'')\<rparr>)
                           world0 (JStr ''<h1>X</h1>'') JUndefined)) = 1
   \<and> last (calls (snd (convertHtmlToPdf
                          (sampleEnv\<lparr>close := Some (ErrorObj ''Protocol error'')\<rparr>)
                          world0 (JStr ''<h1>X</h1>'') JUndefined)))
       = ConsoleError ''Failed to close browser:''"
  by (simp add: convertHtmlToPdf_def nonEmptyString_def tryHtmlToPdf_def safeParse_def
      HtmlToPdfOptionsSchema_def puppeteer_launch_def browser_newPage_def page_setContent_def
      page_pdf_def sampleEnv_def finallyClose_def browser_close_def logCall_def world0_def
      succeeded_def Let_def)

section \<open>The batch variant\<close>

lemma validContent_text:
  "validContent s \<Longrightarrow> nonEmptyString (content s) = Some (asString (content s))"
  by (auto simp: validContent_def nonEmptyString_def split: jsvalue.splits if_splits)

lemma combineLoop_valid:
  "list_all validContent rest \<Longrightarrow> n = i + length rest \<Longrightarrow>
   combineLoop n i rest acc tot
   = Inr (acc @ join pageBreak (map sectionText rest), tot + totalContentLength rest)"
proof (induction rest arbitrary: i acc tot)
  case Nil
  then show ?case by (simp add: totalContentLength_def)
next
  case (Cons s rest)
  from Cons.prems have v: "validContent s" and vs: "list_all validContent rest"
    and n: "n = Suc i + length rest" by simp_all
  note c = validContent_text [OF v]
  show ?case
  proof (cases rest)
    case Nil
    with n c show ?thesis
      by (simp add: Let_def sectionText_def totalContentLength_def split: option.splits)
  next
    case (Cons s' rest')
    with n have lt: "i < n - 1" by simp
    from Cons.IH [OF vs n] c lt Cons show ?thesis
      by (simp add: Let_def sectionText_def totalContentLength_def split: option.splits)
  qed
qed

lemma combineLoop_invalid:
  "\<not> list_all validContent rest \<Longrightarrow>
   combineLoop n i rest acc tot = Inl (i + firstInvalid rest)"
proof (induction rest arbitrary: i acc tot)
  case Nil
  then show ?case by simp
next
  case (Cons s rest)
  show ?case
  proof (cases "validContent s")
    case True
    with Cons.prems have "\<not> list_all validContent rest" by simp
    from Cons.IH [OF this] validContent_text [OF True] True show ?thesis
      by (simp add: Let_def firstInvalid_def)
  next
    case False
    then show ?thesis by (simp add: validContent_def firstInvalid_def)
  qed
qed

lemma firstInvalid_is_invalid:
  "\<not> list_all validContent sections \<Longrightarrow>
   firstInvalid sections < length sections
   \<and> \<not> validContent (sections ! firstInvalid sections)
   \<and> (\<forall>j<firstInvalid sections. validContent (sections ! j))"
  unfolding firstInvalid_def
  by (induction sections) (auto simp: nth_Cons' less_Suc_eq_0_disj)

lemma pipeline_result_cases:
  "(\<And>msg. P (failure msg)) \<Longrightarrow> (\<And>d m. P (succeeded d m)) \<Longrightarrow>
   P (fst (convertMarkdownToPdf E w markdown options))"
  by (simp add: convertMarkdownToPdf_def Let_def split: option.splits sum.splits prod.splits)

lemma pipeline_success_metadata:
  "success (fst (convertMarkdownToPdf E w markdown options)) \<longrightarrow>
   metadata (fst (convertMarkdownToPdf E w markdown options)) \<noteq> None"
  by (rule pipeline_result_cases [where P = "\<lambda>r. success r \<longrightarrow> metadata r \<noteq> None"])
     (simp_all add: failure_def succeeded_def)

text \<open>
  Claim C5. For a non-empty list of sections: when every content is a non-empty string, the
  loop produces the combined document of the specification (for each section in order its
  heading line, when the section has a title, then its content, with the page-break marker
  between consecutive sections and none after the last) together with the sum of the content
  lengths; the single-document pipeline runs once on that document, its outcome is the outcome
  of the batch call, and on success \<open>markdownLength\<close> is the sum of the content lengths. When some
  content is empty or not a string, the call fails without running any stage, and the error
  names the index of the first such section. A title that is the empty string counts as no
  title.
\<close>

theorem batch_combination:
  assumes "sections \<noteq> []"
  shows "(list_all validContent sections \<longrightarrow>
            combineLoop (length sections) 0 sections [] 0
              = Inr (combinedDocument sections, totalContentLength sections)
          \<and> snd (convertMultipleMarkdownToPdf E w sections options)
              = snd (convertMarkdownToPdf E w (JStr (combinedDocument sections)) options)
          \<and> success (fst (convertMultipleMarkdownToPdf E w sections options))
              = success (fst (convertMarkdownToPdf E w (JStr (combinedDocument sections)) options))
          \<and> data (fst (convertMultipleMarkdownToPdf E w sections options))
              = data (fst (convertMarkdownToPdf E w (JStr (combinedDocument sections)) options))
          \<and> error (fst (convertMultipleMarkdownToPdf E w sections options))
              = error (fst (convertMarkdownToPdf E w (JStr (combinedDocument sections)) options))
          \<and> (success (fst (convertMultipleMarkdownToPdf E w sections options)) \<longrightarrow>
                map_option markdownLength
                  (metadata (fst (convertMultipleMarkdownToPdf E w sections options)))
                = Some (totalContentLength sections)))
     \<and> (\<not> list_all validContent sections \<longrightarrow>
            convertMultipleMarkdownToPdf E w sections options
              = (failure (''Invalid markdown content at index ''
                          @ showNat (firstInvalid sections)
                          @ '': content must be a non-empty string''), w)
          \<and> firstInvalid sections < length sections
          \<and> \<not> validContent (sections ! firstInvalid sections)
          \<and> (\<forall>j<firstInvalid sections. validContent (sections ! j)))"
proof (intro conjI impI)
  assume v: "list_all validContent sections"
  from combineLoop_valid [OF v, of "length sections" 0 "[]" 0]
  show loop: "combineLoop (length sections) 0 sections [] 0
              = Inr (combinedDocument sections, totalContentLength sections)"
    by (simp add: combinedDocument_def)
  let ?single = "convertMarkdownToPdf E w (JStr (combinedDocument sections)) options"
  let ?batch = "convertMultipleMarkdownToPdf E w sections options"
  obtain r w1 where single: "?single = (r, w1)" by (cases ?single)
  have batch: "?batch = (case metadata r of
                     Some m \<Rightarrow>
                       if success r
                       then r\<lparr>metadata := Some (m\<lparr>markdownLength := totalContentLength sections\<rparr>)\<rparr>
                       else r
                   | None \<Rightarrow> r, w1)"
    using assms by (simp add: convertMultipleMarkdownToPdf_def loop single)
  show "snd ?batch = snd ?single" by (simp add: batch single)
  show "success (fst ?batch) = success (fst ?single)"
    by (simp add: batch single split: option.splits)
  show "data (fst ?batch) = data (fst ?single)"
    by (simp add: batch single split: option.splits)
  show "error (fst ?batch) = error (fst ?single)"
    by (simp add: batch single split: option.splits)
  assume "success (fst ?batch)"
  then have sr: "success r" by (simp add: batch split: option.splits if_splits)
  from pipeline_success_metadata [of E w "JStr (combinedDocument sections)" options] single sr
  obtain m where "metadata r = Some m" by auto
  with sr show "map_option markdownLength (metadata (fst ?batch))
                = Some (totalContentLength sections)"
    by (simp add: batch)
next
  assume nv: "\<not> list_all validContent sections"
  from combineLoop_invalid [OF nv, of "length sections" 0 "[]" 0] assms
  show "convertMultipleMarkdownToPdf E w sections options
              = (failure (''Invalid markdown content at index ''
                          @ showNat (firstInvalid sections)
                          @ '': content must be a non-empty string''), w)"
    by (simp add: convertMultipleMarkdownToPdf_def)
  from firstInvalid_is_invalid [OF nv]
  show "firstInvalid sections < length sections"
    and "\<not> validContent (sections ! firstInvalid sections)"
    and "\<forall>j<firstInvalid sections. validContent (sections ! j)"
    by blast+
qed

theorem batch_combination_witness:
  "[\<lparr>content = JStr ''A'', title = None\<rparr>, \<lparr>content = JStr ''B'', title = Some ''Two''\<rparr>] \<noteq> []
   \<and> list_all validContent
         [\<lparr>content = JStr ''A'', title = None\<rparr>, \<lparr>content = JStr ''B'', title = Some ''Two''\<rparr>]
   \<and> combineLoop
         (length [\<lparr>content = JStr ''A'', title = None\<rparr>,
                  \<lparr>content = JStr ''B'', title = Some ''Two''\<rparr>]) 0
         [\<lparr>content = JStr ''A'', title = None\<rparr>, \<lparr>content = JStr ''B'', title = Some ''Two''\<rparr>] [] 0
       = Inr (''A'' @ pageBreak @ ''# Two\<newline>\<newline>B'', 2)
   \<and> success (fst (convertMultipleMarkdownToPdf sampleEnv world0
         [\<lparr>content = JStr ''A'', title = None\<rparr>, \<lparr>content = JStr ''B'', title = Some ''Two''\<rparr>]
         (JObj [(''documentOptions'', JObj [(''fullDocument'', JBool False)])])))
   \<and> map_option markdownLength (metadata (fst (convertMultipleMarkdownToPdf sampleEnv world0
         [\<lparr>content = JStr ''A'', title = None\<rparr>, \<lparr>content = JStr ''B'', title = Some ''Two''\<rparr>]
         (JObj [(''documentOptions'', JObj [(''fullDocument'', JBool False)])])))) = Some 2
   \<and> \<not> list_all validContent
         [\<lparr>content = JStr ''A'', title = None\<rparr>, \<lparr>content = JStr [], title = None\<rparr>]
   \<and> convertMultipleMarkdownToPdf sampleEnv world0
         [\<lparr>content = JStr ''A'', title = None\<rparr>, \<lparr>content = JStr [], title = None\<rparr>] JUndefined
       = (failure (''Invalid markdown content at index '' @ ''1''
                   @ '': content must be a non-empty string''), world0)"
proof -
  let ?good = "[\<lparr>content = JStr ''A'', title = None\<rparr>,
                \<lparr>content = JStr ''B'', title = Some ''Two''\<rparr>]"
  let ?bad = "[\<lparr>content = JStr ''A'', title = None\<rparr>, \<lparr>content = JStr [], title = None\<rparr>]"
  let ?opts = "JObj [(''documentOptions'', JObj [(''fullDocument'', JBool False)])]"
  have g: "?good \<noteq> []" and b: "?bad \<noteq> []" by simp_all
  have vg: "list_all validContent ?good"
    by (simp add: validContent_def nonEmptyString_def)
  have vb: "\<not> list_all validContent ?bad"
    by (simp add: validContent_def nonEmptyString_def)
  have doc: "combinedDocument ?good = ''A'' @ pageBreak @ ''# Two\<newline>\<newline>B''"
    by (simp add: combinedDocument_def sectionText_def)
  have tot: "totalContentLength ?good = 2"
    by (simp add: totalContentLength_def)
  have fi: "firstInvalid ?bad = 1"
    by (simp add: firstInvalid_def validContent_def nonEmptyString_def)
  have one: "showNat 1 = ''1''"
    by code_simp
  have s: "success (fst (convertMarkdownToPdf sampleEnv world0 (JStr (combinedDocument ?good)) ?opts))"
    by code_simp
  note G = batch_combination [OF g, of sampleEnv world0 ?opts, THEN conjunct1, rule_format, OF vg]
  note B = batch_combination [OF b, of sampleEnv world0 JUndefined, THEN conjunct2, rule_format,
      OF vb]
  from G have loop: "combineLoop (length ?good) 0 ?good [] 0
       = Inr (''A'' @ pageBreak @ ''# Two\<newline>\<newline>B'', 2)"
    unfolding doc tot by (rule conjunct1)
  from G have eq: "success (fst (convertMultipleMarkdownToPdf sampleEnv world0 ?good ?opts))
       = success (fst (convertMarkdownToPdf sampleEnv world0 (JStr (combinedDocument ?good)) ?opts))"
    by (elim conjE)
  have sb: "success (fst (convertMultipleMarkdownToPdf sampleEnv world0 ?good ?opts))"
    unfolding eq by (fact s)
  from G have "success (fst (convertMultipleMarkdownToPdf sampleEnv world0 ?good ?opts)) \<longrightarrow>
      map_option markdownLength
        (metadata (fst (convertMultipleMarkdownToPdf sampleEnv world0 ?good ?opts)))
      = Some (totalContentLength ?good)"
    by (elim conjE)
  then have ml: "map_option markdownLength
        (metadata (fst (convertMultipleMarkdownToPdf sampleEnv world0 ?good ?opts))) = Some 2"
    unfolding tot using sb by (rule mp)
  from B have fl: "convertMultipleMarkdownToPdf sampleEnv world0 ?bad JUndefined
       = (failure (''Invalid markdown content at index '' @ ''1''
                   @ '': content must be a non-empty string''), world0)"
    unfolding fi one by (rule conjunct1)
  from g vg loop sb ml vb fl show ?thesis by (intro conjI)
qed

section \<open>Metadata injection for DOCX\<close>

lemma indexOf_prefix:
  "indexOf s (p @ q) \<noteq> None \<Longrightarrow> indexOf s p \<noteq> None"
proof (induction s)
  case Nil
  then show ?case by (auto split: if_splits)
next
  case (Cons c cs)
  show ?case
  proof (cases "take (length (p @ q)) (c # cs) = p @ q")
    case True
    then have "take (length p) (c # cs) = p"
      by (metis append_eq_conv_conj take_take min.cobounded1 length_append le_add1 min_absorb1 take_all_iff)
    then show ?thesis by simp
  next
    case False
    with Cons show ?thesis by (auto split: if_splits)
  qed
qed

lemma includes_head_marker:
  "includesStr html ''<head>'' \<Longrightarrow> includesStr html ''<head''"
  using indexOf_prefix [of html "''<head''" "''>''"] by (simp add: includesStr_def)

text \<open>
  What the code does once the guard \<^verbatim>\<open>title || subject || creator\<close> holds: the two cases of the
  specification, with all five metadata elements of \<open>headContent\<close>.
\<close>

lemma processedHtml_guarded:
  assumes "truthy (getProp docxOptions ''title'') \<or> truthy (getProp docxOptions ''subject'')
           \<or> truthy (getProp docxOptions ''creator'')"
  shows "(\<not> includesStr html ''<html'' \<and> \<not> includesStr html ''<head'' \<longrightarrow>
            processedHtml html docxOptions = wrapInShell (headContent docxOptions) html)
     \<and> (includesStr html ''<head>'' \<longrightarrow>
            processedHtml html docxOptions
            = replace html ''<head>''
                (''<head>'' @ headSep @ join headSep (headContent docxOptions)))"
  using assms includes_head_marker [of html] by (auto simp: processedHtml_def)

text \<open>
  Claim C1 says that whenever any of title, subject, creator, keywords or description is set,
  the matching metadata elements reach the head of the HTML handed to the DOCX emitter. The
  guard of the code tests only title, subject and creator, although the guarded block also
  emits the elements for keywords and description. At the input below only \<^verbatim>\<open>keywords\<close> is
  set, the options validate, the HTML has neither marker, and the emitter still receives the
  bare HTML: no shell, no head and no keywords element.
\<close>

theorem keywords_only_not_injected:
  "safeParse HtmlToDocxOptionsSchema (JObj [(''keywords'', JStr ''k'')])
     = Inr (JObj [(''keywords'', JStr ''k'')])
   \<and> \<not> includesStr ''<p>x</p>'' ''<html'' \<and> \<not> includesStr ''<p>x</p>'' ''<head''
   \<and> calls (snd (convertHtmlToDocx sampleEnv world0 (JStr ''<p>x</p>'')
                    (JObj [(''keywords'', JStr ''k'')])))
       = [AsBlob ''<p>x</p>''
            (JObj [(''orientation'', JStr ''portrait''),
                   (''margins'', JObj [(''top'', JNum 1440), (''right'', JNum 1440),
                                       (''bottom'', JNum 1440), (''left'', JNum 1440)])])]
   \<and> success (fst (convertHtmlToDocx sampleEnv world0 (JStr ''<p>x</p>'')
                      (JObj [(''keywords'', JStr ''k'')])))"
  by (simp add: convertHtmlToDocx_def nonEmptyString_def safeParse_def HtmlToDocxOptionsSchema_def
      docxFields_def hasKey_def getField_def DOCX_DEFAULT_OPTIONS_def processedHtml_def
      libOptions_def includesStr_def logCall_def world0_def sampleEnv_def succeeded_def Let_def)

section \<open>Short-circuiting of the pipeline composers\<close>

lemma validated_field_revalidates:
  assumes z: "zparse (ZObject shape) [] (JObj fs) = Inr (JObj out)"
    and d: "distinctKeys (ZObject shape)"
    and mem: "(k, s) \<in> set shape"
  shows "zparse s q (getField out k) = Inr (getField out k)"
proof -
  from d have dist: "distinct (map fst shape)" and ds: "distinctKeys s"
    using mem by (auto simp: list_all_iff)
  from zparse_object_field(1) [OF z dist mem] zparse_idem [OF ds] show ?thesis by blast
qed

lemma docx_schema_distinct:
  "distinctKeys (ZObject (markdownFields @ docxFields @
      [(''fullDocument'', ZOptional ZBoolean), (''cssStyles'', ZOptional ZString)]))"
  by (simp add: markdownFields_def docxFields_def sanitizerOptionsSchema_def)

lemma docx_markdown_options_valid:
  assumes "safeParse MarkdownToDocxOptionsSchema options = Inr d"
  shows "\<not> isl (safeParse MarkdownToHtmlOptionsSchema (docxMarkdownOptions (dataOrEmpty d)))"
proof -
  let ?shape = "markdownFields @ docxFields @
      [(''fullDocument'', ZOptional ZBoolean), (''cssStyles'', ZOptional ZString)]"
  from assms have sp: "safeParse (ZOptional (ZObject ?shape)) options = Inr d"
    by (simp only: MarkdownToDocxOptionsSchema_def)
  from sp show ?thesis
  proof (cases rule: safeParse_optional_cases)
    case 1
    then show ?thesis
      by (simp add: dataOrEmpty_def docxMarkdownOptions_def safeParse_def
          MarkdownToHtmlOptionsSchema_def markdownFields_def sanitizerOptionsSchema_def
          getField_def hasKey_def)
  next
    case (2 fs out)
    have "\<forall>ks\<in>set markdownFields.
            \<not> isl (zparse (snd ks) ([] @ [Key (fst ks)]) (getField out (fst ks)))"
    proof
      fix ks assume "ks \<in> set markdownFields"
      then have "(fst ks, snd ks) \<in> set ?shape" by simp
      from validated_field_revalidates [OF 2(3) docx_schema_distinct this]
      show "\<not> isl (zparse (snd ks) ([] @ [Key (fst ks)]) (getField out (fst ks)))" by simp
    qed
    then have "\<not> list_ex (\<lambda>ks. isl (zparse (snd ks) ([] @ [Key (fst ks)])
                 (getField [(''sanitize'', getField out ''sanitize''),
                            (''breaks'', getField out ''breaks''),
                            (''gfm'', getField out ''gfm''),
                            (''mangle'', getField out ''mangle''),
                            (''pedantic'', getField out ''pedantic''),
                            (''sanitizerOptions'', getField out ''sanitizerOptions'')] (fst ks))))
               markdownFields"
      by (simp add: markdownFields_def getField_Cons del: zparse.simps)
    then show ?thesis
      unfolding 2(2) dataOrEmpty_def docxMarkdownOptions_def MarkdownToHtmlOptionsSchema_def
        safeParse_optional_object zparse_object_isl_ex
      by simp
  qed
qed

lemma docx_stage_options_valid:
  assumes "safeParse MarkdownToDocxOptionsSchema options = Inr d"
  shows "\<not> isl (safeParse HtmlToDocxOptionsSchema (docxStageOptions (dataOrEmpty d)))"
proof -
  let ?shape = "markdownFields @ docxFields @
      [(''fullDocument'', ZOptional ZBoolean), (''cssStyles'', ZOptional ZString)]"
  from assms have sp: "safeParse (ZOptional (ZObject ?shape)) options = Inr d"
    by (simp only: MarkdownToDocxOptionsSchema_def)
  from sp show ?thesis
  proof (cases rule: safeParse_optional_cases)
    case 1
    then show ?thesis
      by (simp add: dataOrEmpty_def docxStageOptions_def safeParse_def
          HtmlToDocxOptionsSchema_def docxFields_def getField_def hasKey_def)
  next
    case (2 fs out)
    have "\<forall>ks\<in>set docxFields.
            \<not> isl (zparse (snd ks) ([] @ [Key (fst ks)]) (getField out (fst ks)))"
    proof
      fix ks assume "ks \<in> set docxFields"
      then have "(fst ks, snd ks) \<in> set ?shape" by simp
      from validated_field_revalidates [OF 2(3) docx_schema_distinct this]
      show "\<not> isl (zparse (snd ks) ([] @ [Key (fst ks)]) (getField out (fst ks)))" by simp
    qed
    then have "\<not> list_ex (\<lambda>ks. isl (zparse (snd ks) ([] @ [Key (fst ks)])
                 (getField [(''orientation'', getField out ''orientation''),
                            (''margins'', getField out ''margins''),
                            (''title'', getField out ''title''),
                            (''subject'', getField out ''subject''),
                            (''creator'', getField out ''creator''),
                            (''keywords'', getField out ''keywords''),
                            (''description'', getField out ''description'')] (fst ks))))
               docxFields"
      by (simp add: docxFields_def getField_Cons del: zparse.simps)
    then show ?thesis
      unfolding 2(2) dataOrEmpty_def docxStageOptions_def HtmlToDocxOptionsSchema_def
        safeParse_optional_object zparse_object_isl_ex
      by simp
  qed
qed

lemma html_stage_failure:
  assumes "convertMarkdownToHtml E w (JStr md) opts = (hr, w1)" and "\<not> success hr"
  shows "data hr = None \<and> calls w1 = calls w \<and> openBrowsers w1 = openBrowsers w
     \<and> (\<exists>e. error hr = Some e \<and> e \<noteq> []
            \<and> (md \<noteq> [] \<and> \<not> isl (safeParse MarkdownToHtmlOptionsSchema opts) \<longrightarrow>
                 (\<exists>m. e = ''Markdown conversion failed: '' @ m)))"
  using assms
  by (auto simp: convertMarkdownToHtml_def nonEmptyString_def failure_def succeeded_def
      markedSetOptions_def invalidMarkdown_def Let_def
      split: option.splits sum.splits if_splits)

lemma docx_stage_failure:
  assumes "convertHtmlToDocx E w (JStr h) opts = (dr, w2)" and "\<not> success dr"
  shows "data dr = None
     \<and> (\<exists>e. error dr = Some e \<and> e \<noteq> []
            \<and> (h \<noteq> [] \<and> \<not> isl (safeParse HtmlToDocxOptionsSchema opts) \<longrightarrow>
                 (\<exists>m. e = ''DOCX generation failed: '' @ m)))"
  using assms
  by (auto simp: convertHtmlToDocx_def nonEmptyString_def failure_def succeeded_def Let_def
      split: option.splits sum.splits if_splits docx_result.splits)

lemma pdf_stage_failure:
  assumes "convertHtmlToPdf E w html opts = (pr, w2)" and "\<not> success pr"
  shows "data pr = None \<and> (\<exists>e. error pr = Some e)"
  using envelope_convertHtmlToPdf [of E w html opts] assms by (auto simp: envelope_def)

lemma docxPipelineHtml_nonempty: "html \<noteq> [] \<Longrightarrow> docxPipelineHtml opts html \<noteq> []"
  by (simp add: docxPipelineHtml_def createFullHtmlDocument_def)

lemma stageData_failed:
  "\<not> success r \<Longrightarrow> stageData htmlStageFailed r = None"
  "\<not> success r' \<Longrightarrow> stageData binaryStageFailed r' = None"
  by (simp_all add: stageData_def htmlStageFailed_def binaryStageFailed_def)

lemma stageData_html_nonempty: "stageData htmlStageFailed r = Some html \<Longrightarrow> html \<noteq> []"
  by (auto simp: stageData_def htmlStageFailed_def split: if_splits)

lemma errorOr_Some: "e \<noteq> [] \<Longrightarrow> errorOr (Some e) fallback = e"
  by (simp add: errorOr_def)

lemma pdf_composer_html_failure:
  assumes md: "nonEmptyString markdown = Some md"
    and v: "safeParse MarkdownToPdfOptionsSchema options = Inr d"
    and st: "convertMarkdownToHtml E w (JStr md) (getProp (dataOrEmpty d) ''markdownOptions'')
             = (hr, w1)"
    and f: "\<not> success hr"
  shows "(\<exists>e. error hr = Some e
            \<and> convertMarkdownToPdf E w markdown options
                = (failure (''Markdown to HTML conversion failed: '' @ e), w1))
     \<and> calls w1 = calls w"
proof -
  from html_stage_failure [OF st f] obtain e where e: "error hr = Some e"
    and c: "calls w1 = calls w" by blast
  have "convertMarkdownToPdf E w markdown options
          = (failure (''Markdown to HTML conversion failed: '' @ e), w1)"
    by (simp add: convertMarkdownToPdf_def md v st stageData_failed(1) [OF f] e errorText_def)
  with e c show ?thesis by blast
qed

lemma pdf_composer_pdf_failure:
  assumes md: "nonEmptyString markdown = Some md"
    and v: "safeParse MarkdownToPdfOptionsSchema options = Inr d"
    and st: "convertMarkdownToHtml E w (JStr md) (getProp (dataOrEmpty d) ''markdownOptions'')
             = (hr, w1)"
    and h: "stageData htmlStageFailed hr = Some html"
    and p: "convertHtmlToPdf E w1 (JStr (pdfPipelineHtml (dataOrEmpty d) html))
              (getProp (dataOrEmpty d) ''pdfOptions'') = (pr, w2)"
    and f: "\<not> success pr"
  shows "\<exists>e. error pr = Some e
            \<and> convertMarkdownToPdf E w markdown options
                = (failure (''HTML to PDF conversion failed: '' @ e), w2)"
proof -
  from pdf_stage_failure [OF p f] obtain e where e: "error pr = Some e" by blast
  have "convertMarkdownToPdf E w markdown options
          = (failure (''HTML to PDF conversion failed: '' @ e), w2)"
    by (simp add: convertMarkdownToPdf_def md v st h p stageData_failed(2) [OF f] e errorText_def)
  with e show ?thesis by blast
qed

lemma docx_composer_html_failure:
  assumes md: "nonEmptyString markdown = Some md"
    and v: "safeParse MarkdownToDocxOptionsSchema options = Inr d"
    and st: "convertMarkdownToHtml E w (JStr md) (docxMarkdownOptions (dataOrEmpty d)) = (hr, w1)"
    and f: "\<not> success hr"
  shows "(\<exists>m. error hr = Some (''Markdown conversion failed: '' @ m)
            \<and> convertMarkdownToDocx E w markdown options
                = (failure (''Markdown conversion failed: '' @ m), w1))
     \<and> calls w1 = calls w"
proof -
  from md have ne: "md \<noteq> []" by (simp add: nonEmptyString_Some)
  from html_stage_failure [OF st f] ne docx_markdown_options_valid [OF v]
  obtain m where e: "error hr = Some (''Markdown conversion failed: '' @ m)"
    and c: "calls w1 = calls w" by blast
  have "convertMarkdownToDocx E w markdown options
          = (failure (''Markdown conversion failed: '' @ m), w1)"
    by (simp add: convertMarkdownToDocx_def md v st stageData_failed(1) [OF f] e errorOr_def)
  with e c show ?thesis by blast
qed

lemma docx_composer_docx_failure:
  assumes md: "nonEmptyString markdown = Some md"
    and v: "safeParse MarkdownToDocxOptionsSchema options = Inr d"
    and st: "convertMarkdownToHtml E w (JStr md) (docxMarkdownOptions (dataOrEmpty d)) = (hr, w1)"
    and h: "stageData htmlStageFailed hr = Some html"
    and x: "convertHtmlToDocx E w1 (JStr (docxPipelineHtml (dataOrEmpty d) html))
              (docxStageOptions (dataOrEmpty d)) = (dr, w2)"
    and f: "\<not> success dr"
  shows "\<exists>m. error dr = Some (''DOCX generation failed: '' @ m)
            \<and> convertMarkdownToDocx E w markdown options
                = (failure (''DOCX generation failed: '' @ m), w2)"
proof -
  from docxPipelineHtml_nonempty [OF stageData_html_nonempty [OF h]]
  have ne: "docxPipelineHtml (dataOrEmpty d) html \<noteq> []" .
  from docx_stage_failure [OF x f] ne docx_stage_options_valid [OF v]
  obtain m where e: "error dr = Some (''DOCX generation failed: '' @ m)" by blast
  have "convertMarkdownToDocx E w markdown options
          = (failure (''DOCX generation failed: '' @ m), w2)"
    by (simp add: convertMarkdownToDocx_def md v st h x stageData_failed(2) [OF f] e errorOr_def)
  with e show ?thesis by blast
qed

text \<open>
  Claim C2. Both composers stop at the first failing stage. Given a non-empty Markdown string
  and options that validate, for each composer and each of its two stages: when the stage, called
  as the composer calls it, returns \<^verbatim>\<open>success = false\<close>, the composer returns a failure (a result
  without data) that carries the stage's error, and in the state the stage left. When the
  Markdown stage fails no call to the engine or the emitter has been made. The message names the
  stage that failed: the Markdown to PDF composer puts \<^verbatim>\<open>Markdown to HTML conversion failed:\<close> or
  \<^verbatim>\<open>HTML to PDF conversion failed:\<close> in front of the stage's error; the Markdown to DOCX
  composer returns the stage's error as it is, which begins with \<^verbatim>\<open>Markdown conversion failed:\<close>
  or \<^verbatim>\<open>DOCX generation failed:\<close>, the only errors the stages can produce there.
\<close>

theorem pipeline_short_circuit:
  assumes "nonEmptyString markdown = Some md"
  shows "(\<forall>d hr w1.
            safeParse MarkdownToPdfOptionsSchema options = Inr d
            \<and> convertMarkdownToHtml E w (JStr md) (getProp (dataOrEmpty d) ''markdownOptions'')
                = (hr, w1)
            \<and> \<not> success hr
          \<longrightarrow> (\<exists>e. error hr = Some e
                    \<and> convertMarkdownToPdf E w markdown options
                        = (failure (''Markdown to HTML conversion failed: '' @ e), w1))
              \<and> calls w1 = calls w)
     \<and> (\<forall>d hr w1 html pr w2.
            safeParse MarkdownToPdfOptionsSchema options = Inr d
            \<and> convertMarkdownToHtml E w (JStr md) (getProp (dataOrEmpty d) ''markdownOptions'')
                = (hr, w1)
            \<and> stageData htmlStageFailed hr = Some html
            \<and> convertHtmlToPdf E w1 (JStr (pdfPipelineHtml (dataOrEmpty d) html))
                  (getProp (dataOrEmpty d) ''pdfOptions'') = (pr, w2)
            \<and> \<not> success pr
          \<longrightarrow> (\<exists>e. error pr = Some e
                    \<and> convertMarkdownToPdf E w markdown options
                        = (failure (''HTML to PDF conversion failed: '' @ e), w2)))
     \<and> (\<forall>d hr w1.
            safeParse MarkdownToDocxOptionsSchema options = Inr d
            \<and> convertMarkdownToHtml E w (JStr md) (docxMarkdownOptions (dataOrEmpty d)) = (hr, w1)
            \<and> \<not> success hr
          \<longrightarrow> (\<exists>m. error hr = Some (''Markdown conversion failed: '' @ m)
                    \<and> convertMarkdownToDocx E w markdown options
                        = (failure (''Markdown conversion failed: '' @ m), w1))
              \<and> calls w1 = calls w)
     \<and> (\<forall>d hr w1 html dr w2.
            safeParse MarkdownToDocxOptionsSchema options = Inr d
            \<and> convertMarkdownToHtml E w (JStr md) (docxMarkdownOptions (dataOrEmpty d)) = (hr, w1)
            \<and> stageData htmlStageFailed hr = Some html
            \<and> convertHtmlToDocx E w1 (JStr (docxPipelineHtml (dataOrEmpty d) html))
                  (docxStageOptions (dataOrEmpty d)) = (dr, w2)
            \<and> \<not> success dr
          \<longrightarrow> (\<exists>m. error dr = Some (''DOCX generation failed: '' @ m)
                    \<and> convertMarkdownToDocx E w markdown options
                        = (failure (''DOCX generation failed: '' @ m), w2)))"
proof (intro conjI allI impI)
  fix d hr w1
  assume "safeParse MarkdownToPdfOptionsSchema options = Inr d
            \<and> convertMarkdownToHtml E w (JStr md) (getProp (dataOrEmpty d) ''markdownOptions'')
                = (hr, w1)
            \<and> \<not> success hr"
  then have a: "safeParse MarkdownToPdfOptionsSchema options = Inr d"
    "convertMarkdownToHtml E w (JStr md) (getProp (dataOrEmpty d) ''markdownOptions'') = (hr, w1)"
    "\<not> success hr" by simp_all
  from pdf_composer_html_failure [OF assms a]
  show "\<exists>e. error hr = Some e
                    \<and> convertMarkdownToPdf E w markdown options
                        = (failure (''Markdown to HTML conversion failed: '' @ e), w1)"
    and "calls w1 = calls w" by blast+
next
  fix d hr w1 html pr w2
  assume "safeParse MarkdownToPdfOptionsSchema options = Inr d
            \<and> convertMarkdownToHtml E w (JStr md) (getProp (dataOrEmpty d) ''markdownOptions'')
                = (hr, w1)
            \<and> stageData htmlStageFailed hr = Some html
            \<and> convertHtmlToPdf E w1 (JStr (pdfPipelineHtml (dataOrEmpty d) html))
                  (getProp (dataOrEmpty d) ''pdfOptions'') = (pr, w2)
            \<and> \<not> success pr"
  then have a: "safeParse MarkdownToPdfOptionsSchema options = Inr d"
    "convertMarkdownToHtml E w (JStr md) (getProp (dataOrEmpty d) ''markdownOptions'') = (hr, w1)"
    "stageData htmlStageFailed hr = Some html"
    "convertHtmlToPdf E w1 (JStr (pdfPipelineHtml (dataOrEmpty d) html))
                  (getProp (dataOrEmpty d) ''pdfOptions'') = (pr, w2)"
    "\<not> success pr" by simp_all
  from pdf_composer_pdf_failure [OF assms a]
  show "\<exists>e. error pr = Some e
                    \<and> convertMarkdownToPdf E w markdown options
                        = (failure (''HTML to PDF conversion failed: '' @ e), w2)" .
next
  fix d hr w1
  assume "safeParse MarkdownToDocxOptionsSchema options = Inr d
            \<and> convertMarkdownToHtml E w (JStr md) (docxMarkdownOptions (dataOrEmpty d)) = (hr, w1)
            \<and> \<not> success hr"
  then have a: "safeParse MarkdownToDocxOptionsSchema options = Inr d"
    "convertMarkdownToHtml E w (JStr md) (docxMarkdownOptions (dataOrEmpty d)) = (hr, w1)"
    "\<not> success hr" by simp_all
  from docx_composer_html_failure [OF assms a]
  show "\<exists>m. error hr = Some (''Markdown conversion failed: '' @ m)
                    \<and> convertMarkdownToDocx E w markdown options
                        = (failure (''Markdown conversion failed: '' @ m), w1)"
    and "calls w1 = calls w" by blast+
next
  fix d hr w1 html dr w2
  assume "safeParse MarkdownToDocxOptionsSchema options = Inr d
            \<and> convertMarkdownToHtml E w (JStr md) (docxMarkdownOptions (dataOrEmpty d)) = (hr, w1)
            \<and> stageData htmlStageFailed hr = Some html
            \<and> convertHtmlToDocx E w1 (JStr (docxPipelineHtml (dataOrEmpty d) html))
                  (docxStageOptions (dataOrEmpty d)) = (dr, w2)
            \<and> \<not> success dr"
  then have a: "safeParse MarkdownToDocxOptionsSchema options = Inr d"
    "convertMarkdownToHtml E w (JStr md) (docxMarkdownOptions (dataOrEmpty d)) = (hr, w1)"
    "stageData htmlStageFailed hr = Some html"
    "convertHtmlToDocx E w1 (JStr (docxPipelineHtml (dataOrEmpty d) html))
                  (docxStageOptions (dataOrEmpty d)) = (dr, w2)"
    "\<not> success dr" by simp_all
  from docx_composer_docx_failure [OF assms a]
  show "\<exists>m. error dr = Some (''DOCX generation failed: '' @ m)
                    \<and> convertMarkdownToDocx E w markdown options
                        = (failure (''DOCX generation failed: '' @ m), w2)" .
qed

theorem pipeline_short_circuit_witness:
  "nonEmptyString (JStr ''# Hi'') = Some ''# Hi''
   \<and> fst (convertMarkdownToPdf
             (sampleEnv\<lparr>marked_parse := (\<lambda>opts md. Inl (ErrorObj ''boom''))\<rparr>)
             world0 (JStr ''# Hi'') JUndefined)
       = failure (''Markdown to HTML conversion failed: '' @ ''Markdown conversion failed: boom'')
   \<and> fst (convertMarkdownToPdf
             (sampleEnv\<lparr>pdf := (\<lambda>src opts. Inl (ErrorObj ''crash''))\<rparr>)
             world0 (JStr ''# Hi'')
             (JObj [(''documentOptions'', JObj [(''fullDocument'', JBool False)])]))
       = failure (''HTML to PDF conversion failed: '' @ ''PDF generation failed: crash'')
   \<and> fst (convertMarkdownToDocx
             (sampleEnv\<lparr>marked_parse := (\<lambda>opts md. Inl (ErrorObj ''boom''))\<rparr>)
             world0 (JStr ''# Hi'') JUndefined)
       = failure (''Markdown conversion failed: '' @ ''boom'')
   \<and> fst (convertMarkdownToDocx
             (sampleEnv\<lparr>asBlob := (\<lambda>html opts. Inl (ErrorObj ''zip''))\<rparr>)
             world0 (JStr ''# Hi'') (JObj [(''fullDocument'', JBool False)]))
       = failure (''DOCX generation failed: '' @ ''zip'')"
proof -
  let ?E1 = "sampleEnv\<lparr>marked_parse := (\<lambda>opts md. Inl (ErrorObj ''boom''))\<rparr>"
  let ?E2 = "sampleEnv\<lparr>pdf := (\<lambda>src opts. Inl (ErrorObj ''crash''))\<rparr>"
  let ?E3 = "sampleEnv\<lparr>asBlob := (\<lambda>html opts. Inl (ErrorObj ''zip''))\<rparr>"
  let ?oP = "JObj [(''documentOptions'', JObj [(''fullDocument'', JBool False)])]"
  let ?oD = "JObj [(''fullDocument'', JBool False)]"
  have a: "nonEmptyString (JStr ''# Hi'') = Some ''# Hi''"
    by (simp add: nonEmptyString_def)

  \<comment> \<open>Markdown to PDF, the Markdown stage fails\<close>
  have v1: "safeParse MarkdownToPdfOptionsSchema JUndefined = Inr JUndefined"
    by (simp add: safeParse_def MarkdownToPdfOptionsSchema_def)
  obtain hr1 w1 where st1: "convertMarkdownToHtml ?E1 world0 (JStr ''# Hi'')
      (getProp (dataOrEmpty JUndefined) ''markdownOptions'') = (hr1, w1)"
    by (cases "convertMarkdownToHtml ?E1 world0 (JStr ''# Hi'')
      (getProp (dataOrEmpty JUndefined) ''markdownOptions'')")
  have "fst (convertMarkdownToHtml ?E1 world0 (JStr ''# Hi'')
      (getProp (dataOrEmpty JUndefined) ''markdownOptions''))
      = failure (''Markdown conversion failed: boom'')"
    by (simp add: convertMarkdownToHtml_def nonEmptyString_def dataOrEmpty_def getField_def
        safeParse_def MarkdownToHtmlOptionsSchema_def sampleEnv_def Let_def)
  with st1 have hr1: "hr1 = failure (''Markdown conversion failed: boom'')" by simp
  then have n1: "\<not> success hr1" and e1: "error hr1 = Some ''Markdown conversion failed: boom''"
    by (simp_all add: failure_def)
  from pipeline_short_circuit [OF a, of JUndefined ?E1 world0, THEN conjunct1, rule_format,
      OF conjI [OF v1 conjI [OF st1 n1]], THEN conjunct1] e1
  have r1: "fst (convertMarkdownToPdf ?E1 world0 (JStr ''# Hi'') JUndefined)
       = failure (''Markdown to HTML conversion failed: '' @ ''Markdown conversion failed: boom'')"
    by auto

  \<comment> \<open>Markdown to DOCX, the Markdown stage fails\<close>
  have v3: "safeParse MarkdownToDocxOptionsSchema JUndefined = Inr JUndefined"
    by (simp add: safeParse_def MarkdownToDocxOptionsSchema_def)
  obtain hr3 w3 where st3: "convertMarkdownToHtml ?E1 world0 (JStr ''# Hi'')
      (docxMarkdownOptions (dataOrEmpty JUndefined)) = (hr3, w3)"
    by (cases "convertMarkdownToHtml ?E1 world0 (JStr ''# Hi'')
      (docxMarkdownOptions (dataOrEmpty JUndefined))")
  have "\<not> success (fst (convertMarkdownToHtml ?E1 world0 (JStr ''# Hi'')
      (docxMarkdownOptions (dataOrEmpty JUndefined))))"
    by code_simp
  with st3 have n3: "\<not> success hr3" by simp
  have "error (fst (convertMarkdownToHtml ?E1 world0 (JStr ''# Hi'')
      (docxMarkdownOptions (dataOrEmpty JUndefined)))) = Some (''Markdown conversion failed: '' @ ''boom'')"
    by code_simp
  with st3 have e3: "error hr3 = Some (''Markdown conversion failed: '' @ ''boom'')" by simp
  from pipeline_short_circuit [OF a, of JUndefined ?E1 world0, THEN conjunct2, THEN conjunct2,
      THEN conjunct1, rule_format, OF conjI [OF v3 conjI [OF st3 n3]], THEN conjunct1] e3
  have r3: "fst (convertMarkdownToDocx ?E1 world0 (JStr ''# Hi'') JUndefined)
       = failure (''Markdown conversion failed: '' @ ''boom'')"
    by auto

  \<comment> \<open>Markdown to PDF, the PDF stage fails\<close>
  have v2: "safeParse MarkdownToPdfOptionsSchema ?oP = Inr ?oP"
    by code_simp
  obtain hr2 w2 where st2: "convertMarkdownToHtml ?E2 world0 (JStr ''# Hi'')
      (getProp (dataOrEmpty ?oP) ''markdownOptions'') = (hr2, w2)"
    by (cases "convertMarkdownToHtml ?E2 world0 (JStr ''# Hi'')
      (getProp (dataOrEmpty ?oP) ''markdownOptions'')")
  have "stageData htmlStageFailed (fst (convertMarkdownToHtml ?E2 world0 (JStr ''# Hi'')
      (getProp (dataOrEmpty ?oP) ''markdownOptions''))) = Some ''<p># Hi</p>''"
    by code_simp
  with st2 have sd2: "stageData htmlStageFailed hr2 = Some ''<p># Hi</p>''" by simp
  obtain pr2 w2' where p2: "convertHtmlToPdf ?E2 w2
      (JStr (pdfPipelineHtml (dataOrEmpty ?oP) ''<p># Hi</p>''))
      (getProp (dataOrEmpty ?oP) ''pdfOptions'') = (pr2, w2')"
    by (cases "convertHtmlToPdf ?E2 w2
      (JStr (pdfPipelineHtml (dataOrEmpty ?oP) ''<p># Hi</p>''))
      (getProp (dataOrEmpty ?oP) ''pdfOptions'')")
  have "fst (convertHtmlToPdf ?E2 w2
      (JStr (pdfPipelineHtml (dataOrEmpty ?oP) ''<p># Hi</p>''))
      (getProp (dataOrEmpty ?oP) ''pdfOptions'')) = failure ''PDF generation failed: crash''"
    by (simp add: convertHtmlToPdf_def nonEmptyString_def pdfPipelineHtml_def dataOrEmpty_def
        getField_def tryHtmlToPdf_def safeParse_def HtmlToPdfOptionsSchema_def
        puppeteer_launch_def browser_newPage_def page_setContent_def page_pdf_def
        fst_finallyClose sampleEnv_def Let_def)
  with p2 have pr2: "pr2 = failure ''PDF generation failed: crash''" by simp
  then have n2: "\<not> success pr2" and e2: "error pr2 = Some ''PDF generation failed: crash''"
    by (simp_all add: failure_def)
  from pipeline_short_circuit [OF a, of ?oP ?E2 world0, THEN conjunct2, THEN conjunct1,
      rule_format, OF conjI [OF v2 conjI [OF st2 conjI [OF sd2 conjI [OF p2 n2]]]]] e2
  have r2: "fst (convertMarkdownToPdf ?E2 world0 (JStr ''# Hi'') ?oP)
       = failure (''HTML to PDF conversion failed: '' @ ''PDF generation failed: crash'')"
    by auto

  \<comment> \<open>Markdown to DOCX, the DOCX stage fails\<close>
  have v4: "safeParse MarkdownToDocxOptionsSchema ?oD = Inr ?oD"
    by code_simp
  obtain hr4 w4 where st4: "convertMarkdownToHtml ?E3 world0 (JStr ''# Hi'')
      (docxMarkdownOptions (dataOrEmpty ?oD)) = (hr4, w4)"
    by (cases "convertMarkdownToHtml ?E3 world0 (JStr ''# Hi'')
      (docxMarkdownOptions (dataOrEmpty ?oD))")
  have "stageData htmlStageFailed (fst (convertMarkdownToHtml ?E3 world0 (JStr ''# Hi'')
      (docxMarkdownOptions (dataOrEmpty ?oD)))) = Some ''<p># Hi</p>''"
    by code_simp
  with st4 have sd4: "stageData htmlStageFailed hr4 = Some ''<p># Hi</p>''" by simp
  obtain dr4 w4' where p4: "convertHtmlToDocx ?E3 w4
      (JStr (docxPipelineHtml (dataOrEmpty ?oD) ''<p># Hi</p>''))
      (docxStageOptions (dataOrEmpty ?oD)) = (dr4, w4')"
    by (cases "convertHtmlToDocx ?E3 w4
      (JStr (docxPipelineHtml (dataOrEmpty ?oD) ''<p># Hi</p>''))
      (docxStageOptions (dataOrEmpty ?oD))")
  have "fst (convertHtmlToDocx ?E3 w4
      (JStr (docxPipelineHtml (dataOrEmpty ?oD) ''<p># Hi</p>''))
      (docxStageOptions (dataOrEmpty ?oD))) = failure (''DOCX generation failed: '' @ ''zip'')"
    by (simp add: convertHtmlToDocx_def nonEmptyString_def docxPipelineHtml_def dataOrEmpty_def
        getField_def hasKey_def docxStageOptions_def safeParse_def HtmlToDocxOptionsSchema_def
        docxFields_def sampleEnv_def Let_def)
  with p4 have dr4: "dr4 = failure (''DOCX generation failed: '' @ ''zip'')" by simp
  then have n4: "\<not> success dr4"
    and e4: "error dr4 = Some (''DOCX generation failed: '' @ ''zip'')"
    by (simp_all add: failure_def)
  from pipeline_short_circuit [OF a, of ?oD ?E3 world0, THEN conjunct2, THEN conjunct2,
      THEN conjunct2, rule_format, OF conjI [OF v4 conjI [OF st4 conjI [OF sd4 conjI [OF p4 n4]]]]]
      e4
  have r4: "fst (convertMarkdownToDocx ?E3 world0 (JStr ''# Hi'') ?oD)
       = failure (''DOCX generation failed: '' @ ''zip'')"
    by auto

  from a r1 r2 r3 r4 show ?thesis by (intro conjI)
qed

end
